theory Spec2Isabelle
  imports Complex_Main
begin

section \<open>Values crossing the boundary to the external services\<close>

text \<open>
  The client talks to an authentication backend, a document store and an optional native
  Google Sign-In module. Everything those services hand back is data of the shapes below.
\<close>

text \<open>A thrown JavaScript \<open>Error\<close>: its \<open>name\<close>, an optional \<open>code\<close> and its \<open>message\<close>.\<close>

record JsError =
  name :: string
  code :: "string option"
  message :: string

text \<open>\<open>new Error(msg)\<close>\<close>

definition newError :: "string \<Rightarrow> JsError" where
  "newError msg = \<lparr>name = ''Error'', code = None, message = msg\<rparr>"

text \<open>\<open>Error.prototype.toString\<close>\<close>

definition toString :: "JsError \<Rightarrow> string" where
  "toString e =
     (if name e = [] then message e
      else if message e = [] then name e
      else name e @ '': '' @ message e)"

text \<open>The \<open>User\<close> object of the authentication backend (the fields this code reads).\<close>

record User =
  uid :: string
  email :: "string option"
  displayName :: "string option"
  emailVerified :: bool

text \<open>\<open>UserData\<close> of \<open>types/auth\<close>: the profile document stored under \<open>users/<uid>\<close>.\<close>

record UserData =
  ud_email :: string
  fullName :: string
  username :: string
  createdAt :: string
  ud_emailVerified :: bool

text \<open>An inventory document; \<open>price\<close> is the decimal literal of the source, only ever copied.\<close>

record ProductData =
  p_id :: string
  p_name :: string
  description :: string
  price :: rat
  stock :: int
  imageKey :: string

datatype Document = UserDoc UserData | ProductDoc ProductData

text \<open>Truthiness of a \<open>string | null\<close> value, and \<open>x || d\<close> on it.\<close>

definition truthy :: "string option \<Rightarrow> bool" where
  "truthy x = (case x of None \<Rightarrow> False | Some s \<Rightarrow> s \<noteq> [])"

definition orElse :: "string option \<Rightarrow> string \<Rightarrow> string" where
  "orElse x d = (case x of None \<Rightarrow> d | Some s \<Rightarrow> if s = [] then d else s)"

text \<open>\<open>String.prototype.includes\<close>\<close>

fun startsWith :: "string \<Rightarrow> string \<Rightarrow> bool" where
  "startsWith s [] = True"
| "startsWith [] (c # cs) = False"
| "startsWith (x # xs) (c # cs) = (x = c \<and> startsWith xs cs)"

fun strIncludes :: "string \<Rightarrow> string \<Rightarrow> bool" where
  "strIncludes [] sub = (sub = [])"
| "strIncludes (x # xs) sub = (startsWith (x # xs) sub \<or> strIncludes xs sub)"

section \<open>Error mapping (\<open>handleAuthError\<close>)\<close>

definition handleAuthError :: "JsError \<Rightarrow> JsError" where
  "handleAuthError error =
     (let message0 = ''An error occurred during authentication'';
          msg =
            (if code error = Some ''auth/email-already-in-use'' then
               ''This email is already registered. Please sign in instead.''
             else if code error = Some ''auth/invalid-email'' then
               ''Please enter a valid email address.''
             else if code error = Some ''auth/operation-not-allowed'' then
               ''This sign-in method is not enabled. Please contact support.''
             else if code error = Some ''auth/weak-password'' then
               ''Password is too weak. Please use at least 6 characters.''
             else if code error = Some ''auth/user-disabled'' then
               ''This account has been disabled. Please contact support.''
             else if code error = Some ''auth/user-not-found'' then
               ''No account found with this email. Please sign up first.''
             else if code error = Some ''auth/wrong-password'' then
               ''Incorrect password. Please try again.''
             else if code error = Some ''auth/too-many-requests'' then
               ''Too many failed attempts. Please try again later.''
             else if code error = Some ''auth/network-request-failed'' then
               ''Network error. Please check your internet connection.''
             else if code error = Some ''auth/invalid-credential'' then
               ''Invalid credentials. Please check your email and password.''
             else if message error \<noteq> [] then message error
             else message0)
      in (newError msg)\<lparr>code := code error\<rparr>)"

text \<open>The case labels of the \<open>switch\<close> in \<open>handleAuthError\<close>.\<close>

definition known_codes :: "string list" where
  "known_codes =
     [''auth/email-already-in-use'', ''auth/invalid-email'', ''auth/operation-not-allowed'',
      ''auth/weak-password'', ''auth/user-disabled'', ''auth/user-not-found'',
      ''auth/wrong-password'', ''auth/too-many-requests'', ''auth/network-request-failed'',
      ''auth/invalid-credential'']"

section \<open>Session observer (\<open>AuthProvider\<close>, \<open>useAuth\<close>)\<close>

text \<open>The three \<open>useState\<close> cells of \<open>AuthProvider\<close>.\<close>

record ProviderState =
  s_user :: "User option"
  s_loading :: bool
  s_initializing :: bool

definition initialState :: ProviderState where
  "initialState = \<lparr>s_user = None, s_loading = True, s_initializing = True\<rparr>"

text \<open>The callback registered with \<open>onAuthStateChanged\<close>.\<close>

definition onAuthStateChanged :: "User option \<Rightarrow> ProviderState \<Rightarrow> ProviderState" where
  "onAuthStateChanged currentUser s =
     s\<lparr>s_user := currentUser, s_loading := False, s_initializing := False\<rparr>"

text \<open>The provider state after a sequence of callback invocations, oldest first.\<close>

definition observe :: "User option list \<Rightarrow> ProviderState" where
  "observe events = foldl (\<lambda>s currentUser. onAuthStateChanged currentUser s) initialState events"

record AuthContextType =
  user :: "User option"
  loading :: bool
  initializing :: bool
  isAuthenticated :: bool
  isEmailVerified :: bool

text \<open>The \<open>value\<close> object \<open>AuthProvider\<close> publishes on each render.\<close>

definition contextValue :: "ProviderState \<Rightarrow> AuthContextType" where
  "contextValue s =
     \<lparr>user = s_user s,
      loading = s_loading s,
      initializing = s_initializing s,
      isAuthenticated = (s_user s \<noteq> None),
      isEmailVerified = (case s_user s of None \<Rightarrow> False | Some u \<Rightarrow> emailVerified u)\<rparr>"

text \<open>
  \<open>useContext(AuthContext)\<close> yields \<open>undefined\<close> (here \<open>None\<close>) outside a provider, the
  context's default, and the nearest provider's \<open>value\<close> inside one.
\<close>

definition useContext :: "ProviderState option \<Rightarrow> AuthContextType option" where
  "useContext provider = map_option contextValue provider"

definition useAuth :: "ProviderState option \<Rightarrow> JsError + AuthContextType" where
  "useAuth provider =
     (case useContext provider of
        None \<Rightarrow> Inl (newError ''useAuth must be used within an AuthProvider'')
      | Some ctx \<Rightarrow> Inr ctx)"

section \<open>The outside world\<close>

text \<open>
  The document store maps a reference \<open>(collection, id)\<close> to at most one document. Every
  request the client sends to a service is recorded, in order, in \<open>calls\<close>, whether the
  service then answers or fails.
\<close>

type_synonym DocRef = "string \<times> string"

datatype Event =
    CreateUser string string
  | UpdateProfile string string
  | SendEmailVerification string
  | SignInWithPopup
  | HasPlayServices
  | GoogleSignOut
  | GoogleSignIn
  | SignInWithCredential string
  | FirebaseSignOut
  | GetDoc DocRef
  | SetDoc DocRef Document

record World =
  db :: "DocRef \<rightharpoonup> Document"
  calls :: "Event list"

definition emit :: "Event \<Rightarrow> World \<Rightarrow> World" where
  "emit ev w = w\<lparr>calls := calls w @ [ev]\<rparr>"

text \<open>What \<open>GoogleSignin.signIn()\<close> resolves to: \<open>idToken\<close> and \<open>data?.idToken\<close>.\<close>

record UserInfo =
  idToken :: "string option"
  data_idToken :: "string option"

text \<open>
  How the services answer during one operation: each field is the outcome of the external
  call of that name (\<open>None\<close>: it succeeded, \<open>Some e\<close> or \<open>Inl e\<close>: it threw \<open>e\<close>).
  \<open>currentUser\<close> is \<open>auth.currentUser\<close> and \<open>now\<close> is \<open>new Date().toISOString()\<close>.
\<close>

record Backend =
  createUser_result :: "string \<Rightarrow> string \<Rightarrow> JsError + User"
  updateProfile_error :: "JsError option"
  sendEmailVerification_error :: "JsError option"
  signInWithPopup_result :: "JsError + User"
  hasPlayServices_error :: "JsError option"
  googleSignOut_error :: "JsError option"
  googleSignIn_result :: "JsError + UserInfo"
  signInWithCredential_result :: "string \<Rightarrow> JsError + User"
  firebaseSignOut_error :: "JsError option"
  getDoc_error :: "DocRef \<Rightarrow> JsError option"
  setDoc_error :: "DocRef \<Rightarrow> JsError option"
  currentUser :: "User option"
  now :: string

text \<open>The constants of the native module's \<open>statusCodes\<close> object.\<close>

record StatusCodes =
  SIGN_IN_CANCELLED :: string
  IN_PROGRESS :: string
  PLAY_SERVICES_NOT_AVAILABLE :: string

text \<open>
  The module-level variables of \<open>AuthService\<close> and the platform: \<open>Platform.OS === 'web'\<close>,
  whether \<open>GoogleSignin\<close> is non-null, \<open>statusCodes\<close>, and \<open>isGoogleSignInAvailable\<close>.
\<close>

record Module =
  os_web :: bool
  GoogleSignin :: bool
  statusCodes :: "StatusCodes option"
  isGoogleSignInAvailable :: bool

section \<open>Asynchronous operations\<close>

text \<open>
  An \<open>async\<close> function runs against the world and either resolves with a value or rejects
  with an error. \<open>await\<close> sequences, \<open>tryCatch\<close> is \<open>try { ... } catch (error) { ... }\<close>.
\<close>

type_synonym 'a Promise = "World \<Rightarrow> (JsError + 'a) \<times> World"

definition resolve :: "'a \<Rightarrow> 'a Promise" where
  "resolve x w = (Inr x, w)"

definition reject :: "JsError \<Rightarrow> 'a Promise" where
  "reject e w = (Inl e, w)"

definition await :: "'a Promise \<Rightarrow> ('a \<Rightarrow> 'b Promise) \<Rightarrow> 'b Promise" where
  "await p k w = (case p w of (Inl e, w') \<Rightarrow> (Inl e, w') | (Inr x, w') \<Rightarrow> k x w')"

definition tryCatch :: "'a Promise \<Rightarrow> (JsError \<Rightarrow> 'a Promise) \<Rightarrow> 'a Promise" where
  "tryCatch body handler w =
     (case body w of (Inl e, w') \<Rightarrow> handler e w' | (Inr x, w') \<Rightarrow> (Inr x, w'))"

text \<open>A call whose only result is success or a thrown error.\<close>

definition request :: "Event \<Rightarrow> JsError option \<Rightarrow> unit Promise" where
  "request ev outcome w =
     ((case outcome of Some e \<Rightarrow> Inl e | None \<Rightarrow> Inr ()), emit ev w)"

subsection \<open>The external calls\<close>

definition createUserWithEmailAndPassword :: "Backend \<Rightarrow> string \<Rightarrow> string \<Rightarrow> User Promise" where
  "createUserWithEmailAndPassword be em pw w =
     (createUser_result be em pw, emit (CreateUser em pw) w)"

text \<open>On success the SDK also sets \<open>displayName\<close> on the local \<open>User\<close> object.\<close>

definition updateProfile :: "Backend \<Rightarrow> User \<Rightarrow> string \<Rightarrow> User Promise" where
  "updateProfile be u dn w =
     ((case updateProfile_error be of
         Some e \<Rightarrow> Inl e
       | None \<Rightarrow> Inr (u\<lparr>displayName := Some dn\<rparr>)),
      emit (UpdateProfile (uid u) dn) w)"

definition sendEmailVerification :: "Backend \<Rightarrow> User \<Rightarrow> unit Promise" where
  "sendEmailVerification be u =
     request (SendEmailVerification (uid u)) (sendEmailVerification_error be)"

definition signInWithPopup :: "Backend \<Rightarrow> User Promise" where
  "signInWithPopup be w = (signInWithPopup_result be, emit SignInWithPopup w)"

definition signInWithCredential :: "Backend \<Rightarrow> string \<Rightarrow> User Promise" where
  "signInWithCredential be tok w =
     (signInWithCredential_result be tok, emit (SignInWithCredential tok) w)"

definition googleSignIn :: "Backend \<Rightarrow> UserInfo Promise" where
  "googleSignIn be w = (googleSignIn_result be, emit GoogleSignIn w)"

text \<open>\<open>getDoc\<close> resolves to the snapshot: \<open>None\<close> when \<open>exists()\<close> is false.\<close>

definition getDoc :: "Backend \<Rightarrow> DocRef \<Rightarrow> Document option Promise" where
  "getDoc be ref w =
     ((case getDoc_error be ref of Some e \<Rightarrow> Inl e | None \<Rightarrow> Inr (db w ref)),
      emit (GetDoc ref) w)"

text \<open>\<open>setDoc\<close> without merge options replaces the document; a failed write changes nothing.\<close>

definition setDoc :: "Backend \<Rightarrow> DocRef \<Rightarrow> Document \<Rightarrow> unit Promise" where
  "setDoc be ref d w =
     (case setDoc_error be ref of
        Some e \<Rightarrow> (Inl e, emit (SetDoc ref d) w)
      | None \<Rightarrow> (Inr (), emit (SetDoc ref d) (w\<lparr>db := (db w)(ref \<mapsto> d)\<rparr>)))"

section \<open>Credential operations (\<open>AuthService\<close>)\<close>

definition signUpWithEmail ::
  "Backend \<Rightarrow> string \<Rightarrow> string \<Rightarrow> string option \<Rightarrow> string option \<Rightarrow> User Promise" where
  "signUpWithEmail be em pw fn un =
     tryCatch
       (await (createUserWithEmailAndPassword be em pw) (\<lambda>user0.
        await (if truthy fn then updateProfile be user0 (orElse fn []) else resolve user0) (\<lambda>u.
        await (sendEmailVerification be u) (\<lambda>_.
        await (if truthy un \<or> truthy fn then
                 setDoc be (''users'', uid u)
                   (UserDoc \<lparr>ud_email = orElse (email u) [],
                             fullName = orElse fn [],
                             username = orElse un [],
                             createdAt = now be,
                             ud_emailVerified = False\<rparr>)
               else resolve ()) (\<lambda>_.
        resolve u)))))
       (\<lambda>error. reject (handleAuthError error))"

text \<open>The profile of a federated user: \<open>emailVerified: true\<close>, empty \<open>username\<close>.\<close>

definition googleUserData :: "Backend \<Rightarrow> User \<Rightarrow> UserData" where
  "googleUserData be u =
     \<lparr>ud_email = orElse (email u) [],
      fullName = orElse (displayName u) [],
      username = [],
      createdAt = now be,
      ud_emailVerified = True\<rparr>"

text \<open>"Store user data in Firestore if new user", the same statements in both branches.\<close>

definition storeIfNew :: "Backend \<Rightarrow> User \<Rightarrow> User Promise" where
  "storeIfNew be u =
     await (getDoc be (''users'', uid u)) (\<lambda>userDoc.
     await (if userDoc = None then
              setDoc be (''users'', uid u) (UserDoc (googleUserData be u))
            else resolve ()) (\<lambda>_.
     resolve u))"

definition developerErrorMessage :: "string \<Rightarrow> string" where
  "developerErrorMessage originalError =
     ''DEVELOPER_ERROR: '' @ originalError @ [CHR 0x0A, CHR 0x0A] @
     ''Please check:'' @ [CHR 0x0A] @
     ''1. SHA-1 fingerprint (7C:02:ED:E8:5B:A0:DC:6E:78:F0:4B:86:9D:47:9C:0A:2F:77:C7:A4) is registered in Firebase Console for package: com.fruitzy.app'' @ [CHR 0x0A] @
     ''2. Android OAuth client ID is configured in Google Cloud Console with the same SHA-1'' @ [CHR 0x0A] @
     ''3. webClientId matches your Firebase Web Client ID'' @ [CHR 0x0A] @
     ''4. Package name in Firebase Console matches: com.fruitzy.app''"

text \<open>\<open>statusCodes && error.code === statusCodes.X\<close>\<close>

definition hasStatus :: "Module \<Rightarrow> (StatusCodes \<Rightarrow> string) \<Rightarrow> JsError \<Rightarrow> bool" where
  "hasStatus m field error =
     (case statusCodes m of None \<Rightarrow> False | Some sc \<Rightarrow> code error = Some (field sc))"

text \<open>The \<open>catch\<close> block of \<open>signInWithGoogle\<close>: the error it rethrows.\<close>

definition googleSignInError :: "Module \<Rightarrow> JsError \<Rightarrow> JsError" where
  "googleSignInError m error =
     (if hasStatus m SIGN_IN_CANCELLED error then
        newError ''Google sign-in was cancelled''
      else if hasStatus m IN_PROGRESS error then
        newError ''Google sign-in is already in progress''
      else if hasStatus m PLAY_SERVICES_NOT_AVAILABLE error then
        newError ''Google Play Services is not available''
      else if code error = Some ''10'' \<or> strIncludes (message error) ''DEVELOPER_ERROR'' then
        newError (developerErrorMessage
          (if message error \<noteq> [] then message error else toString error))
      else if strIncludes (message error) ''popup'' \<or> strIncludes (message error) ''pop-up'' then
        newError ''Google sign-in popup was blocked. Please allow popups and try again.''
      else
        newError (if message error \<noteq> [] then message error
                  else if toString error \<noteq> [] then toString error
                  else ''Unknown Google Sign-In error''))"

definition signInWithGoogle :: "Module \<Rightarrow> Backend \<Rightarrow> User Promise" where
  "signInWithGoogle m be =
     tryCatch
       (if os_web m then
          await (signInWithPopup be) (\<lambda>u. storeIfNew be u)
        else if \<not> isGoogleSignInAvailable m \<or> \<not> GoogleSignin m then
          reject (newError ''Google Sign-In requires a custom development build. Please use email/password sign-in or create a custom dev build with EAS Build.'')
        else
          await (request HasPlayServices (hasPlayServices_error be)) (\<lambda>_.
          await (tryCatch (request GoogleSignOut (googleSignOut_error be)) (\<lambda>error. resolve ())) (\<lambda>_.
          await (googleSignIn be) (\<lambda>userInfo.
          (let tok = (if truthy (idToken userInfo) then idToken userInfo
                      else data_idToken userInfo)
           in if \<not> truthy tok then
                reject (newError ''Google sign-in failed: missing id_token. Please check your SHA-1 fingerprint is registered in Firebase Console.'')
              else
                await (signInWithCredential be (orElse tok [])) (\<lambda>u. storeIfNew be u))))))
       (\<lambda>error. reject (googleSignInError m error))"

definition signOut :: "Module \<Rightarrow> Backend \<Rightarrow> unit Promise" where
  "signOut m be =
     tryCatch
       (await (request FirebaseSignOut (firebaseSignOut_error be)) (\<lambda>_.
        if \<not> os_web m \<and> isGoogleSignInAvailable m \<and> GoogleSignin m then
          tryCatch (request GoogleSignOut (googleSignOut_error be)) (\<lambda>error. resolve ())
        else resolve ()))
       (\<lambda>error. reject (handleAuthError error))"

definition resendEmailVerification :: "Backend \<Rightarrow> unit Promise" where
  "resendEmailVerification be =
     tryCatch
       (case currentUser be of
          None \<Rightarrow> reject (newError ''No user is currently signed in'')
        | Some u \<Rightarrow> sendEmailVerification be u)
       (\<lambda>error. reject (handleAuthError error))"

section \<open>Inventory seeding (\<open>seedInventory\<close>)\<close>

definition productsData :: "ProductData list" where
  "productsData =
     [
      \<lparr>p_id = ''prd-001'', p_name = ''Mango'',
       description =
         ''Fresh tropical mango with sweet, juicy flesh. Perfect for smoothies an'' @
         ''d desserts.'',
       price = 599 / 100, stock = 32, imageKey = ''mango''\<rparr>,
      \<lparr>p_id = ''prd-002'', p_name = ''Orange'',
       description =
         ''Juicy, sweet oranges bursting with vitamin C. Fresh and refreshing.'',
       price = 499 / 100, stock = 28, imageKey = ''orange''\<rparr>,
      \<lparr>p_id = ''prd-003'', p_name = ''Pomegranate'',
       description =
         ''Ruby red pomegranate seeds, sweet and tangy. Packed with antioxidants '' @
         ''and flavor.'',
       price = 749 / 100, stock = 23, imageKey = ''pomegranate''\<rparr>,
      \<lparr>p_id = ''prd-004'', p_name = ''Grapes'',
       description =
         ''Crisp, sweet grapes in red and purple varieties. Refreshing and perfec'' @
         ''t for snacking.'',
       price = 599 / 100, stock = 41, imageKey = ''grapes''\<rparr>,
      \<lparr>p_id = ''prd-005'', p_name = ''Strawberry'',
       description =
         ''Sweet and juicy strawberries, hand-picked at peak ripeness. Ideal for '' @
         ''snacking and baking.'',
       price = 549 / 100, stock = 17, imageKey = ''strawberry''\<rparr>,
      \<lparr>p_id = ''prd-006'', p_name = ''Banana'',
       description =
         ''Ripe yellow bananas, naturally sweet and nutritious. Great for breakfa'' @
         ''st and snacks.'',
       price = 299 / 100, stock = 35, imageKey = ''banana''\<rparr>,
      \<lparr>p_id = ''prd-007'', p_name = ''Blueberries'',
       description =
         ''Fresh blueberries packed with antioxidants. Sweet and tangy, perfect f'' @
         ''or smoothies.'',
       price = 499 / 100, stock = 20, imageKey = ''blueberries''\<rparr>,
      \<lparr>p_id = ''prd-008'', p_name = ''Durian'',
       description =
         ''Exotic durian fruit with unique flavor and creamy texture. Known as th'' @
         ''e king of fruits.'',
       price = 1299 / 100, stock = 14, imageKey = ''durian''\<rparr>,
      \<lparr>p_id = ''prd-009'', p_name = ''Fig'',
       description =
         ''Fresh, sweet figs with soft, jammy interior. Perfect for desserts and '' @
         ''cheese pairings.'',
       price = 649 / 100, stock = 26, imageKey = ''fig''\<rparr>,
      \<lparr>p_id = ''prd-010'', p_name = ''Avocado'',
       description =
         ''Ripe, creamy avocado perfect for salads, toast, and guacamole. Rich in'' @
         '' healthy fats.'',
       price = 399 / 100, stock = 33, imageKey = ''avocado''\<rparr>,
      \<lparr>p_id = ''prd-011'', p_name = ''Chicken'',
       description =
         ''Premium organic chicken, tender and juicy. Perfect for healthy meals a'' @
         ''nd grilling.'',
       price = 899 / 100, stock = 25, imageKey = ''chicken''\<rparr>,
      \<lparr>p_id = ''prd-012'', p_name = ''Bread'',
       description =
         ''Fresh artisan bread with crispy crust and soft interior. Baked daily f'' @
         ''or maximum freshness.'',
       price = 349 / 100, stock = 30, imageKey = ''bread''\<rparr>,
      \<lparr>p_id = ''prd-013'', p_name = ''Avocado Premium'',
       description =
         ''Premium organic avocado with exceptional flavor and texture. Perfect f'' @
         ''or gourmet dishes.'',
       price = 699 / 100, stock = 22, imageKey = ''avocadoPremium''\<rparr>
     ]"

text \<open>One entry of \<open>results\<close>; \<open>r_error\<close> is present on failed entries only.\<close>

record SeedResult =
  r_id :: string
  r_name :: string
  action :: string
  status :: string
  r_error :: "string option"

record SeedSummary =
  total :: nat
  added :: nat
  skipped :: nat
  failed :: nat

record SeedReport =
  success :: bool
  results :: "SeedResult list"
  summary :: SeedSummary
  report_message :: string

text \<open>A count interpolated into a template string.\<close>

fun showNat :: "nat \<Rightarrow> string" where
  "showNat n =
     (if n < 10 then [char_of (48 + n)]
      else showNat (n div 10) @ [char_of (48 + n mod 10)])"

declare showNat.simps [simp del]

text \<open>The body of the \<open>for\<close> loop: the \<open>results\<close> array after handling one product.\<close>

definition seedProduct :: "Backend \<Rightarrow> ProductData \<Rightarrow> SeedResult list \<Rightarrow> SeedResult list Promise" where
  "seedProduct be product results0 =
     tryCatch
       (let productDoc = (''inventory'', p_id product) in
        await (getDoc be productDoc) (\<lambda>existingDoc.
          if existingDoc = None then
            await (setDoc be productDoc
                     (ProductDoc \<lparr>p_id = p_id product,
                                  p_name = p_name product,
                                  description = description product,
                                  price = price product,
                                  stock = stock product,
                                  imageKey = imageKey product\<rparr>)) (\<lambda>_.
            resolve (results0 @
              [\<lparr>r_id = p_id product, r_name = p_name product,
                action = ''added'', status = ''success'', r_error = None\<rparr>]))
          else
            resolve (results0 @
              [\<lparr>r_id = p_id product, r_name = p_name product,
                action = ''exists'', status = ''skipped'', r_error = None\<rparr>])))
       (\<lambda>productError.
          resolve (results0 @
            [\<lparr>r_id = p_id product, r_name = p_name product,
              action = ''error'', status = ''failed'',
              r_error = Some (message productError)\<rparr>]))"

fun seedLoop :: "Backend \<Rightarrow> ProductData list \<Rightarrow> SeedResult list \<Rightarrow> SeedResult list Promise" where
  "seedLoop be [] results0 = resolve results0"
| "seedLoop be (product # rest) results0 =
     await (seedProduct be product results0) (\<lambda>results1. seedLoop be rest results1)"

definition countStatus :: "string \<Rightarrow> SeedResult list \<Rightarrow> nat" where
  "countStatus st rs = length (filter (\<lambda>r. status r = st) rs)"

definition seedInventory :: "Backend \<Rightarrow> SeedReport Promise" where
  "seedInventory be =
     tryCatch
       (await (seedLoop be productsData []) (\<lambda>results1.
          let successCount = countStatus ''success'' results1;
              skippedCount = countStatus ''skipped'' results1;
              failedCount = countStatus ''failed'' results1
          in resolve
               \<lparr>success = (failedCount = 0),
                results = results1,
                summary = \<lparr>total = length results1, added = successCount,
                           skipped = skippedCount, failed = failedCount\<rparr>,
                report_message =
                  ''Seeded '' @ showNat successCount @ '' products, '' @
                  showNat skippedCount @ '' already existed, '' @
                  showNat failedCount @ '' failed''\<rparr>))
       (\<lambda>error.
          if code error = Some ''permission-denied'' then
            reject (newError
              (''Firestore permission denied. Please update Firestore security rules to allow writes to the inventory collection:'' @
               [CHR 0x0A, CHR 0x0A] @ ''match /inventory/{productId} {'' @ [CHR 0x0A] @
               ''  allow read, write: if true;  // Temporary for seeding'' @ [CHR 0x0A] @ ''}''))
          else if code error = Some ''unavailable'' \<or> strIncludes (message error) ''offline'' then
            reject (newError
              (''Cannot connect to Firestore. Please check:'' @ [CHR 0x0A] @
               ''1. Internet connection'' @ [CHR 0x0A] @
               ''2. Firebase project configuration'' @ [CHR 0x0A] @
               ''3. Firestore is enabled in Firebase Console'' @ [CHR 0x0A] @
               ''4. Firestore security rules allow write access''))
          else reject error)"

section \<open>Vocabulary of the statements\<close>

text \<open>The requests an operation sent: what \<open>calls\<close> gained between two worlds.\<close>

definition callsSince :: "World \<Rightarrow> World \<Rightarrow> Event list" where
  "callsSince w w' = drop (length (calls w)) (calls w')"

text \<open>Requests addressed to the document store.\<close>

definition isStoreCall :: "Event \<Rightarrow> bool" where
  "isStoreCall ev = (case ev of GetDoc r \<Rightarrow> True | SetDoc r d \<Rightarrow> True | _ \<Rightarrow> False)"

text \<open>How many \<open>setDoc\<close> requests in a trace address the profile of user \<open>u\<close>.\<close>

definition profileWrites :: "string \<Rightarrow> Event list \<Rightarrow> nat" where
  "profileWrites u evs =
     length (filter (\<lambda>ev. case ev of SetDoc r d \<Rightarrow> r = (''users'', u) | _ \<Rightarrow> False) evs)"

text \<open>
  A product fails in a seeding run when its read throws, or when it is absent from the store
  and its write throws.
\<close>

definition productFails :: "Backend \<Rightarrow> (DocRef \<rightharpoonup> Document) \<Rightarrow> ProductData \<Rightarrow> bool" where
  "productFails be store product =
     (getDoc_error be (''inventory'', p_id product) \<noteq> None
      \<or> (store (''inventory'', p_id product) = None
          \<and> setDoc_error be (''inventory'', p_id product) \<noteq> None))"

text \<open>Shorthand for the object literals pushed onto \<open>results\<close>.\<close>

definition seedEntry :: "ProductData \<Rightarrow> string \<Rightarrow> string \<Rightarrow> string option \<Rightarrow> SeedResult" where
  "seedEntry p a st err = \<lparr>r_id = p_id p, r_name = p_name p, action = a, status = st, r_error = err\<rparr>"

section \<open>Concrete inputs\<close>

text \<open>A user, backends that answer every call or refuse every write, and small worlds.\<close>

definition emptyWorld :: World where
  "emptyWorld = \<lparr>db = Map.empty, calls = []\<rparr>"

definition ann :: User where
  "ann = \<lparr>uid = ''u1'', email = Some ''a@b.com'', displayName = None, emailVerified = False\<rparr>"

definition permissionDenied :: JsError where
  "permissionDenied =
     \<lparr>name = ''FirebaseError'', code = Some ''permission-denied'',
      message = ''Missing or insufficient permissions.''\<rparr>"

definition okBackend :: Backend where
  "okBackend =
     \<lparr>createUser_result = (\<lambda>em pw. Inr ann),
      updateProfile_error = None,
      sendEmailVerification_error = None,
      signInWithPopup_result = Inr ann,
      hasPlayServices_error = None,
      googleSignOut_error = None,
      googleSignIn_result = Inr \<lparr>idToken = Some ''token'', data_idToken = None\<rparr>,
      signInWithCredential_result = (\<lambda>tok. Inr ann),
      firebaseSignOut_error = None,
      getDoc_error = (\<lambda>ref. None),
      setDoc_error = (\<lambda>ref. None),
      currentUser = Some ann,
      now = ''2025-01-01T00:00:00.000Z''\<rparr>"

definition failingStore :: Backend where
  "failingStore = okBackend\<lparr>setDoc_error := (\<lambda>ref. Some permissionDenied)\<rparr>"

definition webModule :: Module where
  "webModule = \<lparr>os_web = True, GoogleSignin = False, statusCodes = None, isGoogleSignInAvailable = False\<rparr>"

definition nativeModule :: Module where
  "nativeModule =
     \<lparr>os_web = False, GoogleSignin = True,
      statusCodes = Some \<lparr>SIGN_IN_CANCELLED = ''SIGN_IN_CANCELLED'', IN_PROGRESS = ''IN_PROGRESS'',
                          PLAY_SERVICES_NOT_AVAILABLE = ''PLAY_SERVICES_NOT_AVAILABLE''\<rparr>,
      isGoogleSignInAvailable = True\<rparr>"

definition oldProfile :: UserData where
  "oldProfile =
     \<lparr>ud_email = ''a@b.com'', fullName = ''Ann Old'', username = ''annie'',
      createdAt = ''2024-06-01T00:00:00.000Z'', ud_emailVerified = True\<rparr>"

definition withProfile :: World where
  "withProfile = \<lparr>db = [(''users'', ''u1'') \<mapsto> UserDoc oldProfile], calls = []\<rparr>"

definition bob :: User where
  "bob = \<lparr>uid = ''u2'', email = Some ''bob@b.com'', displayName = Some ''Bob'', emailVerified = True\<rparr>"

text \<open>The world after a first native federated sign-in of \<open>ann\<close>, and after a second one on the web.\<close>

definition onceSignedIn :: World where
  "onceSignedIn =
     \<lparr>db = [(''users'', ''u1'') \<mapsto>
              UserDoc \<lparr>ud_email = ''a@b.com'', fullName = [], username = [],
                       createdAt = ''2025-01-01T00:00:00.000Z'', ud_emailVerified = True\<rparr>],
      calls = [HasPlayServices, GoogleSignOut, GoogleSignIn, SignInWithCredential ''token'',
               GetDoc (''users'', ''u1''),
               SetDoc (''users'', ''u1'')
                 (UserDoc \<lparr>ud_email = ''a@b.com'', fullName = [], username = [],
                          createdAt = ''2025-01-01T00:00:00.000Z'', ud_emailVerified = True\<rparr>)]\<rparr>"

definition twiceSignedIn :: World where
  "twiceSignedIn =
     onceSignedIn\<lparr>calls := calls onceSignedIn @ [SignInWithPopup, GetDoc (''users'', ''u1'')]\<rparr>"

text \<open>An inventory in which \<open>prd-001\<close> was edited by hand.\<close>

definition editedMango :: ProductData where
  "editedMango =
     \<lparr>p_id = ''prd-001'', p_name = ''Mango'', description = ''Edited by hand'',
      price = 1, stock = 0, imageKey = ''mango''\<rparr>"

definition partlySeeded :: World where
  "partlySeeded = \<lparr>db = [(''inventory'', ''prd-001'') \<mapsto> ProductDoc editedMango], calls = []\<rparr>"

section \<open>Unfolding rules\<close>

lemmas fixture_defs = emptyWorld_def ann_def permissionDenied_def okBackend_def failingStore_def
  webModule_def nativeModule_def

lemmas promise_defs = resolve_def reject_def await_def tryCatch_def request_def emit_def
lemmas call_defs = createUserWithEmailAndPassword_def updateProfile_def sendEmailVerification_def
  signInWithPopup_def signInWithCredential_def googleSignIn_def getDoc_def setDoc_def

lemmas run_defs = signUpWithEmail_def signInWithGoogle_def storeIfNew_def signOut_def
  resendEmailVerification_def promise_defs call_defs truthy_def orElse_def Let_def

section \<open>What the operations do to the world\<close>

lemma storeIfNew_eq:
  "storeIfNew be u w =
     (let ref = (''users'', uid u); doc = UserDoc (googleUserData be u) in
      case getDoc_error be ref of
        Some e \<Rightarrow> (Inl e, w\<lparr>calls := calls w @ [GetDoc ref]\<rparr>)
      | None \<Rightarrow>
          (case db w ref of
             Some d \<Rightarrow> (Inr u, w\<lparr>calls := calls w @ [GetDoc ref]\<rparr>)
           | None \<Rightarrow>
               (case setDoc_error be ref of
                  Some e \<Rightarrow> (Inl e, w\<lparr>calls := calls w @ [GetDoc ref, SetDoc ref doc]\<rparr>)
                | None \<Rightarrow> (Inr u, w\<lparr>db := (db w)(ref \<mapsto> doc),
                                     calls := calls w @ [GetDoc ref, SetDoc ref doc]\<rparr>))))"
  by (simp add: storeIfNew_def promise_defs call_defs Let_def split: option.split)

subsection \<open>Federated sign-in: credential phase, then the gated store\<close>

lemma await_assoc: "await (await p k) k' = await p (\<lambda>x. await (k x) k')"
  by (rule ext) (simp add: await_def split: prod.split sum.split)

lemma await_reject: "await (reject e) k = reject e"
  by (rule ext) (simp add: await_def reject_def)

lemma request_effect:
  "request ev outcome w = (case outcome of Some e \<Rightarrow> Inl e | None \<Rightarrow> Inr (), w\<lparr>calls := calls w @ [ev]\<rparr>)"
  by (simp add: request_def emit_def)

lemma google_decompose:
  obtains cred where
    "signInWithGoogle m be =
       tryCatch (await cred (storeIfNew be)) (\<lambda>error. reject (googleSignInError m error))"
    and "\<And>w. db (snd (cred w)) = db w"
    and "\<And>w. \<exists>xs. calls (snd (cred w)) = calls w @ xs \<and> (\<forall>ev \<in> set xs. \<not> isStoreCall ev)"
proof (cases "os_web m")
  case True
  show thesis
  proof (rule that[of "signInWithPopup be"])
    show "signInWithGoogle m be =
       tryCatch (await (signInWithPopup be) (storeIfNew be)) (\<lambda>error. reject (googleSignInError m error))"
      using True by (simp add: signInWithGoogle_def)
    show "\<And>w. db (snd (signInWithPopup be w)) = db w"
      by (simp add: signInWithPopup_def emit_def)
    show "\<And>w. \<exists>xs. calls (snd (signInWithPopup be w)) = calls w @ xs \<and> (\<forall>ev \<in> set xs. \<not> isStoreCall ev)"
      by (simp add: signInWithPopup_def emit_def isStoreCall_def)
  qed
next
  case False
  note notweb = False
  show thesis
  proof (cases "\<not> isGoogleSignInAvailable m \<or> \<not> GoogleSignin m")
    case True
    define msg where "msg = ''Google Sign-In requires a custom development build. Please use email/password sign-in or create a custom dev build with EAS Build.''"
    show thesis
    proof (rule that[of "reject (newError msg)"])
      show "signInWithGoogle m be =
         tryCatch (await (reject (newError msg)) (storeIfNew be)) (\<lambda>error. reject (googleSignInError m error))"
        using True notweb unfolding msg_def by (auto simp add: signInWithGoogle_def await_reject)
      show "\<And>w. db (snd (reject (newError msg) w)) = db w"
        by (simp add: reject_def)
      show "\<And>w. \<exists>xs. calls (snd (reject (newError msg) w)) = calls w @ xs \<and> (\<forall>ev \<in> set xs. \<not> isStoreCall ev)"
        by (simp add: reject_def)
    qed
  next
    case False
    define tokOf where "tokOf = (\<lambda>userInfo::UserInfo. if truthy (idToken userInfo) then idToken userInfo else data_idToken userInfo)"
    define exchange where "exchange = (\<lambda>userInfo::UserInfo.
        if \<not> truthy (tokOf userInfo) then
          reject (newError ''Google sign-in failed: missing id_token. Please check your SHA-1 fingerprint is registered in Firebase Console.'')
        else signInWithCredential be (orElse (tokOf userInfo) []))"
    define cred where "cred =
        await (request HasPlayServices (hasPlayServices_error be)) (\<lambda>_.
        await (tryCatch (request GoogleSignOut (googleSignOut_error be)) (\<lambda>error. resolve ())) (\<lambda>_.
        await (googleSignIn be) exchange))"
    have ex: "\<And>ui::UserInfo. await (exchange ui) (storeIfNew be) =
        (let tok = (if truthy (idToken ui) then idToken ui else data_idToken ui)
         in if \<not> truthy tok then
              reject (newError ''Google sign-in failed: missing id_token. Please check your SHA-1 fingerprint is registered in Firebase Console.'')
            else await (signInWithCredential be (orElse tok [])) (\<lambda>u. storeIfNew be u))"
      by (simp add: exchange_def tokOf_def await_reject Let_def)
    show thesis
    proof (rule that[of cred])
      show "signInWithGoogle m be =
         tryCatch (await cred (storeIfNew be)) (\<lambda>error. reject (googleSignInError m error))"
        using False notweb
        by (simp add: signInWithGoogle_def cred_def await_assoc ex)
      have exdb: "\<And>ui w. db (snd (exchange ui w)) = db w"
        by (simp add: exchange_def reject_def signInWithCredential_def emit_def)
      have excalls: "\<And>ui w. \<exists>xs. calls (snd (exchange ui w)) = calls w @ xs \<and> (\<forall>ev \<in> set xs. \<not> isStoreCall ev)"
        by (simp add: exchange_def reject_def signInWithCredential_def emit_def isStoreCall_def)
      show "\<And>w. db (snd (cred w)) = db w"
        by (simp add: cred_def await_def tryCatch_def request_effect resolve_def googleSignIn_def emit_def exdb
                 split: option.split sum.split prod.split)
      show "\<exists>xs. calls (snd (cred w)) = calls w @ xs \<and> (\<forall>ev \<in> set xs. \<not> isStoreCall ev)" for w
      proof -
        define w3 where "w3 = w\<lparr>calls := calls w @ [HasPlayServices, GoogleSignOut, GoogleSignIn]\<rparr>"
        consider (a) "calls (snd (cred w)) = calls w @ [HasPlayServices]"
          | (b) "calls (snd (cred w)) = calls w @ [HasPlayServices, GoogleSignOut, GoogleSignIn]"
          | (c) ui where "snd (cred w) = snd (exchange ui w3)"
          by (cases "hasPlayServices_error be"; cases "googleSignOut_error be"; cases "googleSignIn_result be")
             (simp_all add: cred_def w3_def await_def tryCatch_def request_effect resolve_def googleSignIn_def emit_def)
        then show ?thesis
        proof cases
          case a then show ?thesis by (simp add: isStoreCall_def)
        next
          case b then show ?thesis by (simp add: isStoreCall_def)
        next
          case c
          obtain xs where "calls (snd (exchange ui w3)) = calls w3 @ xs" "\<forall>ev \<in> set xs. \<not> isStoreCall ev"
            using excalls by blast
          then have "calls (snd (cred w)) = calls w @ ([HasPlayServices, GoogleSignOut, GoogleSignIn] @ xs)
                     \<and> (\<forall>ev \<in> set ([HasPlayServices, GoogleSignOut, GoogleSignIn] @ xs). \<not> isStoreCall ev)"
            using c by (simp add: w3_def isStoreCall_def)
          then show ?thesis by blast
        qed
      qed
    qed
  qed
qed

lemma callsSince_append [simp]: "callsSince w (w'\<lparr>calls := calls w @ xs\<rparr>) = xs"
  by (simp add: callsSince_def)

lemma google_cases:
  obtains
    (early) e xs where
      "signInWithGoogle m be w = (Inl (googleSignInError m e), w\<lparr>calls := calls w @ xs\<rparr>)"
      "\<forall>ev \<in> set xs. \<not> isStoreCall ev"
  | (read_failed) u :: User and e xs where
      "getDoc_error be (''users'', uid u) = Some e"
      "signInWithGoogle m be w =
         (Inl (googleSignInError m e), w\<lparr>calls := calls w @ xs @ [GetDoc (''users'', uid u)]\<rparr>)"
      "\<forall>ev \<in> set xs. \<not> isStoreCall ev"
  | (exists) u d xs where
      "db w (''users'', uid u) = Some d"
      "signInWithGoogle m be w = (Inr u, w\<lparr>calls := calls w @ xs @ [GetDoc (''users'', uid u)]\<rparr>)"
      "\<forall>ev \<in> set xs. \<not> isStoreCall ev"
  | (write_failed) u :: User and e xs where
      "db w (''users'', uid u) = None"
      "setDoc_error be (''users'', uid u) = Some e"
      "signInWithGoogle m be w =
         (Inl (googleSignInError m e),
          w\<lparr>calls := calls w @ xs @
             [GetDoc (''users'', uid u), SetDoc (''users'', uid u) (UserDoc (googleUserData be u))]\<rparr>)"
      "\<forall>ev \<in> set xs. \<not> isStoreCall ev"
  | (written) u xs where
      "db w (''users'', uid u) = None"
      "setDoc_error be (''users'', uid u) = None"
      "signInWithGoogle m be w =
         (Inr u,
          w\<lparr>db := (db w)((''users'', uid u) \<mapsto> UserDoc (googleUserData be u)),
            calls := calls w @ xs @
             [GetDoc (''users'', uid u), SetDoc (''users'', uid u) (UserDoc (googleUserData be u))]\<rparr>)"
      "\<forall>ev \<in> set xs. \<not> isStoreCall ev"
proof -
  obtain cred where
    dec: "signInWithGoogle m be =
       tryCatch (await cred (storeIfNew be)) (\<lambda>error. reject (googleSignInError m error))"
    and cdb: "\<And>w. db (snd (cred w)) = db w"
    and ccalls: "\<And>w. \<exists>xs. calls (snd (cred w)) = calls w @ xs \<and> (\<forall>ev \<in> set xs. \<not> isStoreCall ev)"
    by (rule google_decompose[of m be]) blast
  obtain xs where xs: "calls (snd (cred w)) = calls w @ xs" "\<forall>ev \<in> set xs. \<not> isStoreCall ev"
    using ccalls by blast
  define w1 where "w1 = w\<lparr>calls := calls w @ xs\<rparr>"
  have w1: "snd (cred w) = w1"
    using cdb[of w] xs(1) by (simp add: w1_def)
  show thesis
  proof (cases "fst (cred w)")
    case (Inl e)
    then have "cred w = (Inl e, w1)" using w1 by (metis prod.collapse)
    then have "signInWithGoogle m be w = (Inl (googleSignInError m e), w\<lparr>calls := calls w @ xs\<rparr>)"
      by (simp add: dec tryCatch_def await_def reject_def w1_def)
    then show thesis using xs(2) by (rule early)
  next
    case (Inr u)
    then have cw: "cred w = (Inr u, w1)" using w1 by (metis prod.collapse)
    let ?ref = "(''users'', uid u)"
    have run: "signInWithGoogle m be w =
        (case storeIfNew be u w1 of
           (Inl e, w') \<Rightarrow> (Inl (googleSignInError m e), w')
         | (Inr u', w') \<Rightarrow> (Inr u', w'))"
      by (simp add: dec tryCatch_def await_def reject_def cw split: prod.split sum.split)
    show thesis
    proof (cases "getDoc_error be ?ref")
      case (Some e)
      then have "signInWithGoogle m be w =
         (Inl (googleSignInError m e), w\<lparr>calls := calls w @ xs @ [GetDoc ?ref]\<rparr>)"
        by (simp add: run storeIfNew_eq w1_def Let_def)
      with Some show thesis using xs(2) by (rule read_failed)
    next
      case None
      note readOk = None
      show thesis
      proof (cases "db w ?ref")
        case (Some d)
        then have "signInWithGoogle m be w = (Inr u, w\<lparr>calls := calls w @ xs @ [GetDoc ?ref]\<rparr>)"
          using readOk by (simp add: run storeIfNew_eq w1_def Let_def)
        with Some show thesis using xs(2) by (rule exists)
      next
        case None
        note absent = None
        show thesis
        proof (cases "setDoc_error be ?ref")
          case (Some e)
          then have "signInWithGoogle m be w =
            (Inl (googleSignInError m e),
             w\<lparr>calls := calls w @ xs @ [GetDoc ?ref, SetDoc ?ref (UserDoc (googleUserData be u))]\<rparr>)"
            using readOk absent by (simp add: run storeIfNew_eq w1_def Let_def)
          with absent Some show thesis using xs(2) by (rule write_failed)
        next
          case None
          then have "signInWithGoogle m be w =
            (Inr u,
             w\<lparr>db := (db w)(?ref \<mapsto> UserDoc (googleUserData be u)),
               calls := calls w @ xs @ [GetDoc ?ref, SetDoc ?ref (UserDoc (googleUserData be u))]\<rparr>)"
            using readOk absent by (simp add: run storeIfNew_eq w1_def Let_def)
          with absent None show thesis using xs(2) by (rule written)
        qed
      qed
    qed
  qed
qed

lemma no_store_call_SetDoc: "\<forall>ev \<in> set xs. \<not> isStoreCall ev \<Longrightarrow> SetDoc r d \<notin> set xs"
  by (auto simp: isStoreCall_def)

lemma google_keeps_docs:
  assumes "db w r = Some d"
  shows "db (snd (signInWithGoogle m be w)) r = Some d"
  by (rule google_cases[where m=m and be=be and w=w]) (use assms in auto)

lemma google_write_gated:
  assumes "SetDoc r d \<in> set (callsSince w (snd (signInWithGoogle m be w)))"
  shows "db w r = None \<and> (\<exists>pre. callsSince w (snd (signInWithGoogle m be w)) = pre @ [GetDoc r, SetDoc r d])"
  by (rule google_cases[where m=m and be=be and w=w]) (use assms in \<open>auto dest: no_store_call_SetDoc\<close>)

lemma google_write_fails:
  assumes "setDoc_error be r = Some e"
    and "SetDoc r d \<in> set (callsSince w (snd (signInWithGoogle m be w)))"
  shows "signInWithGoogle m be w =
           (Inl (googleSignInError m e), w\<lparr>calls := calls (snd (signInWithGoogle m be w))\<rparr>)"
  by (rule google_cases[where m=m and be=be and w=w]) (use assms in \<open>auto dest: no_store_call_SetDoc\<close>)

subsection \<open>Sign-up\<close>

lemma signUp_never_reads:
  "GetDoc r \<notin> set (callsSince w (snd (signUpWithEmail be em pw fn un w)))"
  by (simp add: signUpWithEmail_def promise_defs call_defs callsSince_def
           split: sum.split option.split)

lemma signUp_write_fails:
  assumes "setDoc_error be r = Some e"
    and "SetDoc r d \<in> set (callsSince w (snd (signUpWithEmail be em pw fn un w)))"
  shows "fst (signUpWithEmail be em pw fn un w) = Inl (handleAuthError e)"
  using assms
  by (simp add: signUpWithEmail_def promise_defs call_defs callsSince_def
           split: sum.split_asm option.split_asm if_split_asm)

lemma signUp_overwrites:
  assumes "createUser_result be em pw = Inr u0"
    and "truthy fn \<longrightarrow> updateProfile_error be = None"
    and "sendEmailVerification_error be = None"
    and "truthy un \<or> truthy fn"
    and "setDoc_error be (''users'', uid u0) = None"
  shows "db (snd (signUpWithEmail be em pw fn un w)) (''users'', uid u0) =
           Some (UserDoc \<lparr>ud_email = orElse (email u0) [], fullName = orElse fn [],
                          username = orElse un [], createdAt = now be,
                          ud_emailVerified = False\<rparr>)"
  using assms
  by (auto simp add: signUpWithEmail_def promise_defs call_defs)

subsection \<open>Counting profile writes\<close>

lemma profileWrites_append [simp]:
  "profileWrites u (xs @ ys) = profileWrites u xs + profileWrites u ys"
  by (simp add: profileWrites_def)

lemma profileWrites_Nil [simp]: "profileWrites u [] = 0"
  by (simp add: profileWrites_def)

lemma profileWrites_Cons [simp]:
  "profileWrites u (ev # evs) =
     (case ev of SetDoc r d \<Rightarrow> if r = (''users'', u) then 1 else 0 | _ \<Rightarrow> 0) + profileWrites u evs"
  by (simp add: profileWrites_def split: Event.split)

lemma profileWrites_no_store [simp]:
  "\<forall>ev \<in> set xs. \<not> isStoreCall ev \<Longrightarrow> profileWrites u xs = 0"
  by (induction xs) (auto simp: isStoreCall_def split: Event.splits)

lemma google_success_cases:
  assumes "signInWithGoogle m be w = (Inr u, w')"
  obtains (exists) d xs where
      "db w (''users'', uid u) = Some d"
      "w' = w\<lparr>calls := calls w @ xs @ [GetDoc (''users'', uid u)]\<rparr>"
      "\<forall>ev \<in> set xs. \<not> isStoreCall ev"
  | (written) xs where
      "db w (''users'', uid u) = None"
      "w' = w\<lparr>db := (db w)((''users'', uid u) \<mapsto> UserDoc (googleUserData be u)),
              calls := calls w @ xs @
               [GetDoc (''users'', uid u), SetDoc (''users'', uid u) (UserDoc (googleUserData be u))]\<rparr>"
      "\<forall>ev \<in> set xs. \<not> isStoreCall ev"
  by (rule google_cases[where m=m and be=be and w=w]) (use assms in auto)

subsection \<open>Seeding: one product, then the loop\<close>

lemma productData_copy [simp]:
  "\<lparr>p_id = p_id p, p_name = p_name p, description = description p,
    price = price p, stock = stock p, imageKey = imageKey p\<rparr> = (p :: ProductData)"
  by (cases p) simp

lemma seedProduct_eq:
  "seedProduct be p rs w =
     (case getDoc_error be (''inventory'', p_id p) of
        Some e \<Rightarrow>
          (Inr (rs @ [seedEntry p ''error'' ''failed'' (Some (message e))]),
           w\<lparr>calls := calls w @ [GetDoc (''inventory'', p_id p)]\<rparr>)
      | None \<Rightarrow>
          (case db w (''inventory'', p_id p) of
             Some d \<Rightarrow>
               (Inr (rs @ [seedEntry p ''exists'' ''skipped'' None]),
                w\<lparr>calls := calls w @ [GetDoc (''inventory'', p_id p)]\<rparr>)
           | None \<Rightarrow>
               (case setDoc_error be (''inventory'', p_id p) of
                  Some e \<Rightarrow>
                    (Inr (rs @ [seedEntry p ''error'' ''failed'' (Some (message e))]),
                     w\<lparr>calls := calls w @
                        [GetDoc (''inventory'', p_id p), SetDoc (''inventory'', p_id p) (ProductDoc p)]\<rparr>)
                | None \<Rightarrow>
                    (Inr (rs @ [seedEntry p ''added'' ''success'' None]),
                     w\<lparr>db := (db w)((''inventory'', p_id p) \<mapsto> ProductDoc p),
                       calls := calls w @
                        [GetDoc (''inventory'', p_id p), SetDoc (''inventory'', p_id p) (ProductDoc p)]\<rparr>))))"
  by (simp add: seedProduct_def seedEntry_def promise_defs call_defs Let_def split: option.split)

lemma seedProduct_cases:
  obtains
    (failed) e xs where
      "productFails be (db w) p"
      "seedProduct be p rs w = (Inr (rs @ [e]), w\<lparr>calls := calls w @ xs\<rparr>)"
      "r_id e = p_id p" "status e = ''failed''"
      "xs = [GetDoc (''inventory'', p_id p)]
       \<or> (db w (''inventory'', p_id p) = None
           \<and> (\<exists>doc. xs = [GetDoc (''inventory'', p_id p), SetDoc (''inventory'', p_id p) doc]))"
  | (skipped) e d where
      "\<not> productFails be (db w) p"
      "db w (''inventory'', p_id p) = Some d"
      "seedProduct be p rs w = (Inr (rs @ [e]), w\<lparr>calls := calls w @ [GetDoc (''inventory'', p_id p)]\<rparr>)"
      "r_id e = p_id p" "status e = ''skipped''"
  | (added) e doc where
      "\<not> productFails be (db w) p"
      "db w (''inventory'', p_id p) = None"
      "seedProduct be p rs w =
         (Inr (rs @ [e]),
          w\<lparr>db := (db w)((''inventory'', p_id p) \<mapsto> doc),
            calls := calls w @ [GetDoc (''inventory'', p_id p), SetDoc (''inventory'', p_id p) doc]\<rparr>)"
      "r_id e = p_id p" "status e = ''success''"
proof -
  let ?ref = "(''inventory'', p_id p)"
  show thesis
  proof (cases "getDoc_error be ?ref")
    case (Some e)
    show thesis
      by (rule failed[where xs = "[GetDoc ?ref]"
                        and e = "seedEntry p ''error'' ''failed'' (Some (message e))"])
         (use Some in \<open>simp_all add: productFails_def seedProduct_eq seedEntry_def\<close>)
  next
    case None
    note readOk = None
    show thesis
    proof (cases "db w ?ref")
      case (Some d)
      show thesis
        by (rule skipped[where d = d and e = "seedEntry p ''exists'' ''skipped'' None"])
           (use Some readOk in \<open>simp_all add: productFails_def seedProduct_eq seedEntry_def\<close>)
    next
      case None
      note absent = None
      show thesis
      proof (cases "setDoc_error be ?ref")
        case (Some e)
        show thesis
          by (rule failed[where xs = "[GetDoc ?ref, SetDoc ?ref (ProductDoc p)]"
                            and e = "seedEntry p ''error'' ''failed'' (Some (message e))"])
             (use Some readOk absent in
               \<open>simp_all add: productFails_def seedProduct_eq seedEntry_def\<close>)
      next
        case None
        show thesis
          by (rule added[where doc = "ProductDoc p" and e = "seedEntry p ''added'' ''success'' None"])
             (use None readOk absent in
               \<open>simp_all add: productFails_def seedProduct_eq seedEntry_def\<close>)
      qed
    qed
  qed
qed

lemma seedLoop_step:
  "seedProduct be p rs w = (Inr rs1, w1) \<Longrightarrow> seedLoop be (p # rest) rs w = seedLoop be rest rs1 w1"
  by (simp add: await_def)

lemma seedLoop_results:
  "\<exists>rs'. fst (seedLoop be ps rs w) = Inr (rs @ rs') \<and> map r_id rs' = map p_id ps"
proof (induction ps arbitrary: rs w)
  case Nil
  show ?case by (simp add: resolve_def)
next
  case (Cons p rest)
  obtain e w1 where step: "seedProduct be p rs w = (Inr (rs @ [e]), w1)" and e: "r_id e = p_id p"
    by (rule seedProduct_cases[where be=be and p=p and rs=rs and w=w]) blast+
  obtain rs' where "fst (seedLoop be rest (rs @ [e]) w1) = Inr ((rs @ [e]) @ rs')"
    "map r_id rs' = map p_id rest"
    using Cons.IH by blast
  then have "fst (seedLoop be (p # rest) rs w) = Inr (rs @ (e # rs')) \<and> map r_id (e # rs') = map p_id (p # rest)"
    using e unfolding seedLoop_step[OF step] by simp
  then show ?case by blast
qed

lemma seedLoop_world:
  "\<exists>xs. calls (snd (seedLoop be ps rs w)) = calls w @ xs
        \<and> (\<forall>r d. SetDoc r d \<in> set xs \<longrightarrow> db w r = None)
        \<and> (\<forall>r d. db w r = Some d \<longrightarrow> db (snd (seedLoop be ps rs w)) r = Some d)"
proof (induction ps arbitrary: rs w)
  case Nil
  show ?case by (simp add: resolve_def)
next
  case (Cons p rest)
  obtain e w1 xs1 where step: "seedProduct be p rs w = (Inr (rs @ [e]), w1)"
    and calls1: "calls w1 = calls w @ xs1"
    and gated1: "\<forall>r d. SetDoc r d \<in> set xs1 \<longrightarrow> db w r = None"
    and keeps1: "\<forall>r d. db w r = Some d \<longrightarrow> db w1 r = Some d"
  proof (rule seedProduct_cases[where be=be and p=p and rs=rs and w=w])
    fix e xs
    assume "seedProduct be p rs w = (Inr (rs @ [e]), w\<lparr>calls := calls w @ xs\<rparr>)"
      and "xs = [GetDoc (''inventory'', p_id p)]
       \<or> (db w (''inventory'', p_id p) = None
           \<and> (\<exists>doc. xs = [GetDoc (''inventory'', p_id p), SetDoc (''inventory'', p_id p) doc]))"
    then show thesis by (intro that[of e "w\<lparr>calls := calls w @ xs\<rparr>" xs]) auto
  next
    fix e d
    assume "seedProduct be p rs w = (Inr (rs @ [e]), w\<lparr>calls := calls w @ [GetDoc (''inventory'', p_id p)]\<rparr>)"
    then show thesis by (intro that[of e _ "[GetDoc (''inventory'', p_id p)]"]) auto
  next
    fix e doc
    assume "db w (''inventory'', p_id p) = None"
      and "seedProduct be p rs w =
         (Inr (rs @ [e]),
          w\<lparr>db := (db w)((''inventory'', p_id p) \<mapsto> doc),
            calls := calls w @ [GetDoc (''inventory'', p_id p), SetDoc (''inventory'', p_id p) doc]\<rparr>)"
    then show thesis
      by (intro that[of e _ "[GetDoc (''inventory'', p_id p), SetDoc (''inventory'', p_id p) doc]"]) auto
  qed
  let ?w2 = "snd (seedLoop be rest (rs @ [e]) w1)"
  obtain xs2 where calls2: "calls ?w2 = calls w1 @ xs2"
    and gated2: "\<forall>r d. SetDoc r d \<in> set xs2 \<longrightarrow> db w1 r = None"
    and keeps2: "\<forall>r d. db w1 r = Some d \<longrightarrow> db ?w2 r = Some d"
    using Cons.IH by blast
  have gated2': "\<forall>r d. SetDoc r d \<in> set xs2 \<longrightarrow> db w r = None"
  proof (intro allI impI)
    fix r d assume "SetDoc r d \<in> set xs2"
    then have "db w1 r = None" using gated2 by blast
    then show "db w r = None" using keeps1 by (cases "db w r") auto
  qed
  have a: "calls ?w2 = calls w @ (xs1 @ xs2)"
    using calls1 calls2 by simp
  have b: "\<forall>r d. SetDoc r d \<in> set (xs1 @ xs2) \<longrightarrow> db w r = None"
    using gated1 gated2' unfolding set_append by blast
  have c: "\<forall>r d. db w r = Some d \<longrightarrow> db ?w2 r = Some d"
    using keeps1 keeps2 by blast
  show ?case unfolding seedLoop_step[OF step] using a b c by blast
qed

lemma callsSince_trans:
  "calls w1 = calls w @ xs1 \<Longrightarrow> calls w2 = calls w1 @ xs2 \<Longrightarrow>
   callsSince w w2 = callsSince w w1 @ callsSince w1 w2"
  by (simp add: callsSince_def)

lemma seedProduct_step:
  obtains e w1 xs where
    "seedProduct be p rs w = (Inr (rs @ [e]), w1)"
    "r_id e = p_id p"
    "(status e = ''failed'') = productFails be (db w) p"
    "calls w1 = calls w @ xs"
    "\<forall>r. r \<noteq> (''inventory'', p_id p) \<longrightarrow> db w1 r = db w r"
    "\<forall>r d. db w r = Some d \<longrightarrow> db w1 r = Some d"
    "db w (''inventory'', p_id p) \<noteq> None \<longrightarrow> db w1 = db w \<and> (\<forall>r d. SetDoc r d \<notin> set xs)"
    "\<not> productFails be (db w) p \<longrightarrow> db w1 (''inventory'', p_id p) \<noteq> None"
proof (rule seedProduct_cases[where be=be and p=p and rs=rs and w=w])
  fix e xs
  assume "productFails be (db w) p"
    "seedProduct be p rs w = (Inr (rs @ [e]), w\<lparr>calls := calls w @ xs\<rparr>)"
    "r_id e = p_id p" "status e = ''failed''"
    "xs = [GetDoc (''inventory'', p_id p)]
       \<or> (db w (''inventory'', p_id p) = None
           \<and> (\<exists>doc. xs = [GetDoc (''inventory'', p_id p), SetDoc (''inventory'', p_id p) doc]))"
  then show thesis
    by (intro that[of e "w\<lparr>calls := calls w @ xs\<rparr>" xs]) auto
next
  fix e d
  assume "\<not> productFails be (db w) p"
    "db w (''inventory'', p_id p) = Some d"
    "seedProduct be p rs w = (Inr (rs @ [e]), w\<lparr>calls := calls w @ [GetDoc (''inventory'', p_id p)]\<rparr>)"
    "r_id e = p_id p" "status e = ''skipped''"
  then show thesis
    by (intro that[of e "w\<lparr>calls := calls w @ [GetDoc (''inventory'', p_id p)]\<rparr>"
                      "[GetDoc (''inventory'', p_id p)]"]) auto
next
  fix e doc
  assume "\<not> productFails be (db w) p"
    "db w (''inventory'', p_id p) = None"
    "seedProduct be p rs w =
         (Inr (rs @ [e]),
          w\<lparr>db := (db w)((''inventory'', p_id p) \<mapsto> doc),
            calls := calls w @ [GetDoc (''inventory'', p_id p), SetDoc (''inventory'', p_id p) doc]\<rparr>)"
    "r_id e = p_id p" "status e = ''success''"
  then show thesis
    by (intro that[of e "w\<lparr>db := (db w)((''inventory'', p_id p) \<mapsto> doc),
            calls := calls w @ [GetDoc (''inventory'', p_id p), SetDoc (''inventory'', p_id p) doc]\<rparr>"
                      "[GetDoc (''inventory'', p_id p), SetDoc (''inventory'', p_id p) doc]"]) auto
qed

lemma countStatus_append [simp]:
  "countStatus st (xs @ ys) = countStatus st xs + countStatus st ys"
  by (simp add: countStatus_def)

lemma seedLoop_failed_count:
  assumes "distinct (map p_id ps)"
  shows "\<exists>rs'. fst (seedLoop be ps rs w) = Inr (rs @ rs')
           \<and> countStatus ''failed'' rs' = length (filter (productFails be (db w)) ps)"
  using assms
proof (induction ps arbitrary: rs w)
  case Nil
  show ?case by (simp add: resolve_def countStatus_def)
next
  case (Cons p rest)
  obtain e w1 where step: "seedProduct be p rs w = (Inr (rs @ [e]), w1)"
    and status: "(status e = ''failed'') = productFails be (db w) p"
    and other: "\<forall>r. r \<noteq> (''inventory'', p_id p) \<longrightarrow> db w1 r = db w r"
    by (rule seedProduct_step[where be=be and p=p and rs=rs and w=w]) blast
  have same: "filter (productFails be (db w1)) rest = filter (productFails be (db w)) rest"
  proof (rule filter_cong[OF refl])
    fix q assume "q \<in> set rest"
    then have "p_id q \<in> set (map p_id rest)" by simp
    moreover have "p_id p \<notin> set (map p_id rest)" using Cons.prems by simp
    ultimately have "p_id q \<noteq> p_id p" by metis
    then show "productFails be (db w1) q = productFails be (db w) q"
      using other by (simp add: productFails_def)
  qed
  obtain rs' where rest: "fst (seedLoop be rest (rs @ [e]) w1) = Inr ((rs @ [e]) @ rs')"
    "countStatus ''failed'' rs' = length (filter (productFails be (db w1)) rest)"
    using Cons.IH[of "rs @ [e]" w1] Cons.prems by auto
  have "fst (seedLoop be (p # rest) rs w) = Inr (rs @ (e # rs'))
        \<and> countStatus ''failed'' (e # rs') = length (filter (productFails be (db w)) (p # rest))"
    unfolding seedLoop_step[OF step] using rest status same
    by (simp add: countStatus_def)
  then show ?case by blast
qed

lemma seedLoop_all_present:
  assumes "\<forall>p \<in> set ps. db w (''inventory'', p_id p) \<noteq> None"
  shows "db (snd (seedLoop be ps rs w)) = db w
         \<and> (\<forall>r d. SetDoc r d \<notin> set (callsSince w (snd (seedLoop be ps rs w))))"
  using assms
proof (induction ps arbitrary: rs w)
  case Nil
  show ?case by (simp add: resolve_def callsSince_def)
next
  case (Cons p rest)
  obtain e w1 xs1 where step: "seedProduct be p rs w = (Inr (rs @ [e]), w1)"
    and calls1: "calls w1 = calls w @ xs1"
    and quiet: "db w (''inventory'', p_id p) \<noteq> None \<longrightarrow> db w1 = db w \<and> (\<forall>r d. SetDoc r d \<notin> set xs1)"
    by (rule seedProduct_step[where be=be and p=p and rs=rs and w=w]) blast
  let ?w2 = "snd (seedLoop be rest (rs @ [e]) w1)"
  have db1: "db w1 = db w" and xs1: "\<forall>r d. SetDoc r d \<notin> set xs1"
    using quiet Cons.prems by auto
  have ih: "db ?w2 = db w1 \<and> (\<forall>r d. SetDoc r d \<notin> set (callsSince w1 ?w2))"
    using Cons.IH[of w1 "rs @ [e]"] Cons.prems db1 by simp
  obtain xs2 where calls2: "calls ?w2 = calls w1 @ xs2"
    using seedLoop_world[of be rest "rs @ [e]" w1] by blast
  have "callsSince w ?w2 = callsSince w w1 @ callsSince w1 ?w2"
    by (rule callsSince_trans[OF calls1 calls2])
  moreover have "callsSince w w1 = xs1" using calls1 by (simp add: callsSince_def)
  ultimately show ?case
    unfolding seedLoop_step[OF step] using ih xs1 db1 by simp
qed

lemma seedLoop_no_failure_all_present:
  assumes "\<forall>p \<in> set ps. \<not> productFails be (db w) p"
  shows "\<forall>p \<in> set ps. db (snd (seedLoop be ps rs w)) (''inventory'', p_id p) \<noteq> None"
  using assms
proof (induction ps arbitrary: rs w)
  case Nil
  show ?case by simp
next
  case (Cons p rest)
  obtain e w1 where step: "seedProduct be p rs w = (Inr (rs @ [e]), w1)"
    and keeps: "\<forall>r d. db w r = Some d \<longrightarrow> db w1 r = Some d"
    and here: "\<not> productFails be (db w) p \<longrightarrow> db w1 (''inventory'', p_id p) \<noteq> None"
    by (rule seedProduct_step[where be=be and p=p and rs=rs and w=w]) blast
  let ?w2 = "snd (seedLoop be rest (rs @ [e]) w1)"
  have "\<forall>q \<in> set rest. \<not> productFails be (db w1) q"
  proof
    fix q assume "q \<in> set rest"
    then have "\<not> productFails be (db w) q" using Cons.prems by simp
    then show "\<not> productFails be (db w1) q"
      using keeps by (cases "db w (''inventory'', p_id q)") (auto simp: productFails_def)
  qed
  then have rest: "\<forall>q \<in> set rest. db ?w2 (''inventory'', p_id q) \<noteq> None"
    by (rule Cons.IH)
  have "db w1 (''inventory'', p_id p) \<noteq> None" using here Cons.prems by simp
  then have "db ?w2 (''inventory'', p_id p) \<noteq> None"
    using seedLoop_world[of be rest "rs @ [e]" w1] by auto
  then show ?case unfolding seedLoop_step[OF step] using rest by simp
qed

subsection \<open>Seeding: the products table and the whole run\<close>

lemma productsData_distinct: "distinct (map p_id productsData)"
  by (simp add: productsData_def)

lemma productsData_length: "length productsData = 13"
  by (simp add: productsData_def)

lemma seedInventory_run:
  assumes "seedLoop be productsData [] w = (Inr rs, w')"
  shows "snd (seedInventory be w) = w'"
    and "\<exists>rep. fst (seedInventory be w) = Inr rep \<and> results rep = rs
           \<and> success rep = (countStatus ''failed'' rs = 0)
           \<and> failed (summary rep) = countStatus ''failed'' rs"
  using assms
  by (simp_all add: seedInventory_def tryCatch_def await_def resolve_def Let_def)

lemma seedInventory_world: "snd (seedInventory be w) = snd (seedLoop be productsData [] w)"
proof -
  obtain rs' where "fst (seedLoop be productsData [] w) = Inr ([] @ rs')"
    using seedLoop_results[of be productsData "[]" w] by blast
  then obtain w' where run: "seedLoop be productsData [] w = (Inr rs', w')"
    by (cases "seedLoop be productsData [] w") simp
  show ?thesis
    using seedInventory_run(1)[OF run] run by simp
qed

lemma seedInventory_report:
  assumes "fst (seedLoop be productsData [] w) = Inr rs"
  shows "\<exists>rep. fst (seedInventory be w) = Inr rep \<and> results rep = rs
           \<and> success rep = (countStatus ''failed'' rs = 0)
           \<and> failed (summary rep) = countStatus ''failed'' rs"
proof -
  obtain w' where run: "seedLoop be productsData [] w = (Inr rs, w')"
    using assms by (cases "seedLoop be productsData [] w") simp
  show ?thesis
    by (rule seedInventory_run(2)[OF run])
qed

section \<open>The claims\<close>

subsection \<open>C1: existence-gated profile write\<close>

text \<open>
  C1 as stated: sign-up and federated sign-in both read the profile document before writing
  it and never overwrite an existing one. Sign-up does neither: with an account whose uid
  already has a profile, it sends no \<open>getDoc\<close> and replaces the stored document.
\<close>

theorem signUp_skips_existence_check_counterexample:
  "db withProfile (''users'', ''u1'') = Some (UserDoc oldProfile)
   \<and> signUpWithEmail okBackend ''a@b.com'' ''password123'' (Some ''Ann'') None withProfile =
       (Inr (ann\<lparr>displayName := Some ''Ann''\<rparr>),
        \<lparr>db = [(''users'', ''u1'') \<mapsto>
                 UserDoc \<lparr>ud_email = ''a@b.com'', fullName = ''Ann'', username = [],
                          createdAt = ''2025-01-01T00:00:00.000Z'', ud_emailVerified = False\<rparr>],
         calls = [CreateUser ''a@b.com'' ''password123'', UpdateProfile ''u1'' ''Ann'',
                  SendEmailVerification ''u1'',
                  SetDoc (''users'', ''u1'')
                    (UserDoc \<lparr>ud_email = ''a@b.com'', fullName = ''Ann'', username = [],
                             createdAt = ''2025-01-01T00:00:00.000Z'', ud_emailVerified = False\<rparr>)]\<rparr>)"
  by (simp add: run_defs fixture_defs withProfile_def oldProfile_def)

text \<open>
  C1, amended. Federated sign-in never changes a document that exists, and every \<open>setDoc\<close> it
  sends goes to a reference that held no document and comes directly after the \<open>getDoc\<close> of
  that same reference. Sign-up sends no \<open>getDoc\<close> at all: once the account is created, the
  display name set (when a full name is given) and the verification mail sent, it writes the
  profile of the new uid whenever a username or full name is given, whatever was stored there.
\<close>

theorem profile_write_existence_gate:
  "(\<forall>r d. db w r = Some d \<longrightarrow> db (snd (signInWithGoogle m be w)) r = Some d)
   \<and> (\<forall>r d. SetDoc r d \<in> set (callsSince w (snd (signInWithGoogle m be w))) \<longrightarrow>
         db w r = None
         \<and> (\<exists>pre. callsSince w (snd (signInWithGoogle m be w)) = pre @ [GetDoc r, SetDoc r d]))
   \<and> (\<forall>r. GetDoc r \<notin> set (callsSince w (snd (signUpWithEmail be em pw fn un w))))
   \<and> (createUser_result be em pw = Inr newUser
        \<and> (truthy fn \<longrightarrow> updateProfile_error be = None)
        \<and> sendEmailVerification_error be = None
        \<and> (truthy un \<or> truthy fn)
        \<and> setDoc_error be (''users'', uid newUser) = None \<longrightarrow>
      db (snd (signUpWithEmail be em pw fn un w)) (''users'', uid newUser) =
        Some (UserDoc \<lparr>ud_email = orElse (email newUser) [], fullName = orElse fn [],
                       username = orElse un [], createdAt = now be,
                       ud_emailVerified = False\<rparr>))"
  using google_keeps_docs[of w _ _ m be] google_write_gated[of _ _ w m be]
    signUp_never_reads[of _ w be em pw fn un] signUp_overwrites[of be em pw newUser fn un w]
  by blast

text \<open>
  The gate at work: a federated sign-in into a world that holds a profile for \<open>u1\<close> leaves
  it alone, and one into the empty world writes right after reading. Sign-up into the world
  that holds the profile stores its own document.
\<close>

theorem profile_write_existence_gate_witness:
  "db withProfile (''users'', ''u1'') = Some (UserDoc oldProfile)
   \<and> db (snd (signInWithGoogle webModule okBackend withProfile)) (''users'', ''u1'') =
       Some (UserDoc oldProfile)
   \<and> SetDoc (''users'', ''u1'') (UserDoc (googleUserData okBackend ann))
       \<in> set (callsSince emptyWorld (snd (signInWithGoogle webModule okBackend emptyWorld)))
   \<and> db emptyWorld (''users'', ''u1'') = None
   \<and> (\<exists>pre. callsSince emptyWorld (snd (signInWithGoogle webModule okBackend emptyWorld)) =
         pre @ [GetDoc (''users'', ''u1''),
                SetDoc (''users'', ''u1'') (UserDoc (googleUserData okBackend ann))])
   \<and> createUser_result okBackend ''a@b.com'' ''password123'' = Inr ann
   \<and> db (snd (signUpWithEmail okBackend ''a@b.com'' ''password123'' (Some ''Ann'') None withProfile))
        (''users'', uid ann) =
       Some (UserDoc \<lparr>ud_email = orElse (email ann) [], fullName = orElse (Some ''Ann'') [],
                      username = orElse None [], createdAt = now okBackend,
                      ud_emailVerified = False\<rparr>)"
proof -
  have present: "db withProfile (''users'', ''u1'') = Some (UserDoc oldProfile)"
    by (simp add: withProfile_def)
  have sent: "SetDoc (''users'', ''u1'') (UserDoc (googleUserData okBackend ann))
       \<in> set (callsSince emptyWorld (snd (signInWithGoogle webModule okBackend emptyWorld)))"
    by (simp add: run_defs fixture_defs callsSince_def)
  have created: "createUser_result okBackend ''a@b.com'' ''password123'' = Inr ann"
    by (simp add: okBackend_def)
  have rest: "(truthy (Some ''Ann'') \<longrightarrow> updateProfile_error okBackend = None)
       \<and> sendEmailVerification_error okBackend = None
       \<and> (truthy None \<or> truthy (Some ''Ann''))
       \<and> setDoc_error okBackend (''users'', uid ann) = None"
    by (simp add: okBackend_def truthy_def)
  show ?thesis
    using present sent created rest
      profile_write_existence_gate[where w = withProfile and m = webModule and be = okBackend
        and em = "''a@b.com''" and pw = "''password123''" and fn = "Some ''Ann''" and un = None
        and newUser = ann]
      profile_write_existence_gate[where w = emptyWorld and m = webModule and be = okBackend]
    by blast
qed

subsection \<open>C2: a failed profile write\<close>

text \<open>
  C2 as stated: when the account exists but the profile write fails, the caller still gets
  the identity. It does not: with a store that refuses writes, sign-up and federated sign-in
  both reject, although the backend had answered with the user.
\<close>

theorem profile_write_failure_counterexample:
  "createUser_result failingStore ''a@b.com'' ''password123'' = Inr ann
   \<and> fst (signUpWithEmail failingStore ''a@b.com'' ''password123'' (Some ''Ann'') None emptyWorld) =
       Inl \<lparr>name = ''Error'', code = Some ''permission-denied'',
            message = ''Missing or insufficient permissions.''\<rparr>
   \<and> signInWithPopup_result failingStore = Inr ann
   \<and> fst (signInWithGoogle webModule failingStore emptyWorld) =
       Inl \<lparr>name = ''Error'', code = None, message = ''Missing or insufficient permissions.''\<rparr>"
  by (simp add: run_defs fixture_defs handleAuthError_def googleSignInError_def hasStatus_def newError_def)

text \<open>
  C2, amended. Whenever sign-up or federated sign-in sends a profile write and the store
  throws \<open>e\<close> on it, the operation rejects: sign-up with \<open>handleAuthError e\<close>, federated
  sign-in with the error its \<open>catch\<close> block builds from \<open>e\<close>. No identity is returned.
\<close>

theorem profile_write_failure_rejects:
  assumes "setDoc_error be r = Some e"
  shows "(SetDoc r d \<in> set (callsSince w (snd (signUpWithEmail be em pw fn un w))) \<longrightarrow>
            fst (signUpWithEmail be em pw fn un w) = Inl (handleAuthError e))
         \<and> (SetDoc r d \<in> set (callsSince w (snd (signInWithGoogle m be w))) \<longrightarrow>
            fst (signInWithGoogle m be w) = Inl (googleSignInError m e))"
proof (intro conjI impI)
  assume "SetDoc r d \<in> set (callsSince w (snd (signUpWithEmail be em pw fn un w)))"
  with assms show "fst (signUpWithEmail be em pw fn un w) = Inl (handleAuthError e)"
    by (rule signUp_write_fails)
next
  assume "SetDoc r d \<in> set (callsSince w (snd (signInWithGoogle m be w)))"
  with assms have "signInWithGoogle m be w =
      (Inl (googleSignInError m e), w\<lparr>calls := calls (snd (signInWithGoogle m be w))\<rparr>)"
    by (rule google_write_fails)
  then show "fst (signInWithGoogle m be w) = Inl (googleSignInError m e)"
    by (metis fst_conv)
qed

theorem profile_write_failure_rejects_witness:
  "setDoc_error failingStore (''users'', ''u1'') = Some permissionDenied
   \<and> SetDoc (''users'', ''u1'')
        (UserDoc \<lparr>ud_email = ''a@b.com'', fullName = ''Ann'', username = [],
                  createdAt = ''2025-01-01T00:00:00.000Z'', ud_emailVerified = False\<rparr>)
       \<in> set (callsSince emptyWorld
            (snd (signUpWithEmail failingStore ''a@b.com'' ''password123'' (Some ''Ann'') None emptyWorld)))
   \<and> fst (signUpWithEmail failingStore ''a@b.com'' ''password123'' (Some ''Ann'') None emptyWorld) =
       Inl (handleAuthError permissionDenied)
   \<and> SetDoc (''users'', ''u1'') (UserDoc (googleUserData failingStore ann))
       \<in> set (callsSince emptyWorld (snd (signInWithGoogle nativeModule failingStore emptyWorld)))
   \<and> fst (signInWithGoogle nativeModule failingStore emptyWorld) =
       Inl (googleSignInError nativeModule permissionDenied)"
proof -
  have refuses: "setDoc_error failingStore (''users'', ''u1'') = Some permissionDenied"
    by (simp add: failingStore_def)
  have up: "SetDoc (''users'', ''u1'')
        (UserDoc \<lparr>ud_email = ''a@b.com'', fullName = ''Ann'', username = [],
                  createdAt = ''2025-01-01T00:00:00.000Z'', ud_emailVerified = False\<rparr>)
       \<in> set (callsSince emptyWorld
            (snd (signUpWithEmail failingStore ''a@b.com'' ''password123'' (Some ''Ann'') None emptyWorld)))"
    by (simp add: run_defs fixture_defs callsSince_def)
  have google: "SetDoc (''users'', ''u1'') (UserDoc (googleUserData failingStore ann))
       \<in> set (callsSince emptyWorld (snd (signInWithGoogle nativeModule failingStore emptyWorld)))"
    by (simp add: run_defs fixture_defs callsSince_def)
  show ?thesis
    using refuses up google
      profile_write_failure_rejects[OF refuses,
        of "UserDoc \<lparr>ud_email = ''a@b.com'', fullName = ''Ann'', username = [],
                     createdAt = ''2025-01-01T00:00:00.000Z'', ud_emailVerified = False\<rparr>"
           emptyWorld "''a@b.com''" "''password123''" "Some ''Ann''" None nativeModule]
      profile_write_failure_rejects[OF refuses,
        of "UserDoc (googleUserData failingStore ann)"
           emptyWorld "''a@b.com''" "''password123''" "Some ''Ann''" None nativeModule]
    by blast
qed

subsection \<open>C3: federated sign-in twice\<close>

text \<open>
  C3. Two successful federated sign-ins in sequence for the same uid: afterwards the store
  holds a profile document for that uid (one, since a reference holds at most one document),
  the second sign-in changed no document, over both sign-ins a profile write was sent once
  if the uid had no profile at the start and not at all otherwise, and a profile written by
  the first sign-in has \<open>emailVerified\<close> set.
\<close>

theorem google_signIn_twice:
  assumes first: "signInWithGoogle m1 be1 w0 = (Inr u1, w1)"
    and second: "signInWithGoogle m2 be2 w1 = (Inr u2, w2)"
    and same: "uid u2 = uid u1"
  shows "db w2 (''users'', uid u1) \<noteq> None
         \<and> db w2 = db w1
         \<and> profileWrites (uid u1) (callsSince w0 w2) =
             (if db w0 (''users'', uid u1) = None then 1 else 0)
         \<and> (db w0 (''users'', uid u1) = None \<longrightarrow>
              db w2 (''users'', uid u1) = Some (UserDoc (googleUserData be1 u1))
              \<and> ud_emailVerified (googleUserData be1 u1))"
proof -
  let ?ref = "(''users'', uid u1)"
  have stored: "db w1 ?ref \<noteq> None"
    by (rule google_success_cases[OF first]) auto
  obtain xs2 where
    w2: "w2 = w1\<lparr>calls := calls w1 @ xs2 @ [GetDoc ?ref]\<rparr>"
    and xs2: "\<forall>ev \<in> set xs2. \<not> isStoreCall ev"
    by (rule google_success_cases[OF second]) (use stored same in auto)
  from first show ?thesis
  proof (rule google_success_cases)
    fix d xs
    assume "db w0 ?ref = Some d"
      and "w1 = w0\<lparr>calls := calls w0 @ xs @ [GetDoc ?ref]\<rparr>"
      and "\<forall>ev \<in> set xs. \<not> isStoreCall ev"
    then show ?thesis
      using w2 xs2 by (simp add: callsSince_def)
  next
    fix xs
    assume "db w0 ?ref = None"
      and "w1 = w0\<lparr>db := (db w0)(?ref \<mapsto> UserDoc (googleUserData be1 u1)),
              calls := calls w0 @ xs @
               [GetDoc ?ref, SetDoc ?ref (UserDoc (googleUserData be1 u1))]\<rparr>"
      and "\<forall>ev \<in> set xs. \<not> isStoreCall ev"
    then show ?thesis
      using w2 xs2 by (simp add: callsSince_def googleUserData_def)
  qed
qed

theorem google_signIn_twice_witness:
  "signInWithGoogle nativeModule okBackend emptyWorld = (Inr ann, onceSignedIn)
   \<and> signInWithGoogle webModule okBackend onceSignedIn = (Inr ann, twiceSignedIn)
   \<and> db emptyWorld (''users'', uid ann) = None
   \<and> db twiceSignedIn (''users'', uid ann) = Some (UserDoc (googleUserData okBackend ann))
   \<and> ud_emailVerified (googleUserData okBackend ann)
   \<and> db twiceSignedIn = db onceSignedIn
   \<and> profileWrites (uid ann) (callsSince emptyWorld twiceSignedIn) = 1"
proof -
  have one: "signInWithGoogle nativeModule okBackend emptyWorld = (Inr ann, onceSignedIn)"
    by (simp add: run_defs fixture_defs onceSignedIn_def twiceSignedIn_def googleUserData_def)
  have two: "signInWithGoogle webModule okBackend onceSignedIn = (Inr ann, twiceSignedIn)"
    by (simp add: run_defs fixture_defs onceSignedIn_def twiceSignedIn_def googleUserData_def)
  have fresh: "db emptyWorld (''users'', uid ann) = None"
    by (simp add: fixture_defs)
  note twice = google_signIn_twice[OF one two refl]
  from twice have count: "profileWrites (uid ann) (callsSince emptyWorld twiceSignedIn) =
      (if db emptyWorld (''users'', uid ann) = None then 1 else 0)"
    by blast
  have once: "profileWrites (uid ann) (callsSince emptyWorld twiceSignedIn) = 1"
    unfolding count fresh by simp
  show ?thesis
    using one two fresh twice once by blast
qed

subsection \<open>C4: session normalisation\<close>

text \<open>
  C4. After every callback event the published session carries the event's argument as
  \<open>user\<close>, \<open>loading = False\<close> and \<open>initializing = False\<close>; and at all times, before the
  first event too, \<open>isAuthenticated\<close> says whether \<open>user\<close> is present.
\<close>

theorem session_normalization:
  "contextValue (observe (evs @ [ev])) =
     \<lparr>user = ev, loading = False, initializing = False,
      isAuthenticated = (ev \<noteq> None),
      isEmailVerified = (case ev of None \<Rightarrow> False | Some u \<Rightarrow> emailVerified u)\<rparr>
   \<and> isAuthenticated (contextValue (observe evs)) = (user (contextValue (observe evs)) \<noteq> None)"
  by (simp add: observe_def contextValue_def onAuthStateChanged_def)

text \<open>The sequence \<open>[id1, none, id2]\<close> of the specification, after its second and third event.\<close>

theorem session_normalization_witness:
  "contextValue (observe [Some ann, None]) =
     \<lparr>user = None, loading = False, initializing = False,
      isAuthenticated = False, isEmailVerified = False\<rparr>
   \<and> contextValue (observe [Some ann, None, Some bob]) =
     \<lparr>user = Some bob, loading = False, initializing = False,
      isAuthenticated = True, isEmailVerified = True\<rparr>
   \<and> isAuthenticated (contextValue (observe [])) = False"
  using session_normalization[of "[Some ann]" None]
    session_normalization[of "[Some ann, None]" "Some bob"]
    session_normalization[of "[]" None]
  by (simp add: bob_def observe_def contextValue_def initialState_def)

subsection \<open>C5: error mapping on the known codes\<close>

text \<open>
  C5. For a code among the \<open>switch\<close> labels of \<open>handleAuthError\<close>, the mapped error depends
  on the code alone: two raw errors with that code map to the same error, whatever their
  names and messages; its message is non-empty; it is a fresh \<open>Error\<close> that carries the code
  and nothing else of the raw error.
\<close>

theorem handleAuthError_known:
  assumes "c \<in> set known_codes" and "code e1 = Some c" and "code e2 = Some c"
  shows "handleAuthError e1 = handleAuthError e2
         \<and> message (handleAuthError e1) \<noteq> []
         \<and> name (handleAuthError e1) = ''Error''
         \<and> code (handleAuthError e1) = Some c"
  using assms by (auto simp: known_codes_def handleAuthError_def newError_def)

theorem handleAuthError_known_witness:
  "''auth/wrong-password'' \<in> set known_codes
   \<and> handleAuthError \<lparr>name = ''FirebaseError'', code = Some ''auth/wrong-password'',
                       message = ''Firebase: Error (auth/wrong-password).''\<rparr> =
     handleAuthError \<lparr>name = ''X'', code = Some ''auth/wrong-password'', message = []\<rparr>
   \<and> message (handleAuthError \<lparr>name = ''FirebaseError'', code = Some ''auth/wrong-password'',
                       message = ''Firebase: Error (auth/wrong-password).''\<rparr>) \<noteq> []"
proof -
  have known: "''auth/wrong-password'' \<in> set known_codes"
    by (simp add: known_codes_def)
  have raw1: "code \<lparr>name = ''FirebaseError'', code = Some ''auth/wrong-password'',
                    message = ''Firebase: Error (auth/wrong-password).''\<rparr> =
              Some ''auth/wrong-password''"
    by simp
  have raw2: "code \<lparr>name = ''X'', code = Some ''auth/wrong-password'', message = []\<rparr> =
              Some ''auth/wrong-password''"
    by simp
  show ?thesis
    using known handleAuthError_known[OF known raw1 raw2] by blast
qed

subsection \<open>C6: sign-out resilience\<close>

text \<open>
  C6. When the backend sign-out succeeds and the provider's sign-out throws, \<open>signOut\<close>
  resolves; the provider's error is dropped. On a native build with the module loaded the
  provider step is the second request sent.
\<close>

theorem signOut_resilient:
  assumes "firebaseSignOut_error be = None" and "googleSignOut_error be = Some e"
  shows "signOut m be w =
           (Inr (), w\<lparr>calls := calls w @
              (if \<not> os_web m \<and> isGoogleSignInAvailable m \<and> GoogleSignin m
               then [FirebaseSignOut, GoogleSignOut] else [FirebaseSignOut])\<rparr>)"
  using assms by (simp add: signOut_def promise_defs)

theorem signOut_resilient_witness:
  "firebaseSignOut_error (okBackend\<lparr>googleSignOut_error := Some permissionDenied\<rparr>) = None
   \<and> googleSignOut_error (okBackend\<lparr>googleSignOut_error := Some permissionDenied\<rparr>) = Some permissionDenied
   \<and> signOut nativeModule (okBackend\<lparr>googleSignOut_error := Some permissionDenied\<rparr>) emptyWorld =
       (Inr (), \<lparr>db = Map.empty, calls = [FirebaseSignOut, GoogleSignOut]\<rparr>)"
proof -
  let ?be = "okBackend\<lparr>googleSignOut_error := Some permissionDenied\<rparr>"
  have a: "firebaseSignOut_error ?be = None" by (simp add: okBackend_def)
  have b: "googleSignOut_error ?be = Some permissionDenied" by simp
  show ?thesis
    using a b signOut_resilient[OF a b, of nativeModule emptyWorld]
    by (simp add: nativeModule_def emptyWorld_def)
qed

subsection \<open>C7: resend verification without a session\<close>

text \<open>
  C7. With no current user, \<open>resendEmailVerification\<close> rejects with the error
  "No user is currently signed in" (no code), the form the no-active-session kind takes in
  this code, and sends nothing.
\<close>

theorem resend_no_session:
  assumes "currentUser be = None"
  shows "resendEmailVerification be w =
           (Inl \<lparr>name = ''Error'', code = None, message = ''No user is currently signed in''\<rparr>, w)"
  using assms
  by (simp add: resendEmailVerification_def promise_defs handleAuthError_def newError_def)

theorem resend_no_session_witness:
  "currentUser (okBackend\<lparr>currentUser := None\<rparr>) = None
   \<and> resendEmailVerification (okBackend\<lparr>currentUser := None\<rparr>) emptyWorld =
       (Inl \<lparr>name = ''Error'', code = None, message = ''No user is currently signed in''\<rparr>,
        emptyWorld)"
proof -
  have a: "currentUser (okBackend\<lparr>currentUser := None\<rparr>) = None" by simp
  show ?thesis using a resend_no_session[OF a, of emptyWorld] by simp
qed

subsection \<open>C8: the sign-up scenario\<close>

text \<open>
  C8. Sign-up with \<open>a@b.com\<close>, \<open>password123\<close>, full name \<open>Ann\<close> and no username, every
  backend call succeeding and the backend returning a user with that email: the operation
  resolves with that user (display name now \<open>Ann\<close>), sends one verification mail, and sends
  one profile write, of the document with that email, full name \<open>Ann\<close>, empty username and
  \<open>emailVerified = False\<close>, which the store then holds.
\<close>

theorem signUp_scenario:
  assumes "createUser_result be ''a@b.com'' ''password123'' = Inr u0"
    and "email u0 = Some ''a@b.com''"
    and "updateProfile_error be = None"
    and "sendEmailVerification_error be = None"
    and "setDoc_error be (''users'', uid u0) = None"
  shows "signUpWithEmail be ''a@b.com'' ''password123'' (Some ''Ann'') None w =
           (Inr (u0\<lparr>displayName := Some ''Ann''\<rparr>),
            w\<lparr>db := (db w)((''users'', uid u0) \<mapsto>
                   UserDoc \<lparr>ud_email = ''a@b.com'', fullName = ''Ann'', username = [],
                            createdAt = now be, ud_emailVerified = False\<rparr>),
              calls := calls w @
                [CreateUser ''a@b.com'' ''password123'',
                 UpdateProfile (uid u0) ''Ann'',
                 SendEmailVerification (uid u0),
                 SetDoc (''users'', uid u0)
                   (UserDoc \<lparr>ud_email = ''a@b.com'', fullName = ''Ann'', username = [],
                            createdAt = now be, ud_emailVerified = False\<rparr>)]\<rparr>)"
  using assms
  by (simp add: signUpWithEmail_def promise_defs call_defs truthy_def orElse_def)

theorem signUp_scenario_witness:
  "createUser_result okBackend ''a@b.com'' ''password123'' = Inr ann
   \<and> email ann = Some ''a@b.com''
   \<and> email (ann\<lparr>displayName := Some ''Ann''\<rparr>) = Some ''a@b.com''
   \<and> signUpWithEmail okBackend ''a@b.com'' ''password123'' (Some ''Ann'') None emptyWorld =
       (Inr (ann\<lparr>displayName := Some ''Ann''\<rparr>),
        \<lparr>db = [(''users'', ''u1'') \<mapsto>
                 UserDoc \<lparr>ud_email = ''a@b.com'', fullName = ''Ann'', username = [],
                          createdAt = ''2025-01-01T00:00:00.000Z'', ud_emailVerified = False\<rparr>],
         calls = [CreateUser ''a@b.com'' ''password123'', UpdateProfile ''u1'' ''Ann'',
                  SendEmailVerification ''u1'',
                  SetDoc (''users'', ''u1'')
                    (UserDoc \<lparr>ud_email = ''a@b.com'', fullName = ''Ann'', username = [],
                             createdAt = ''2025-01-01T00:00:00.000Z'', ud_emailVerified = False\<rparr>)]\<rparr>)"
proof -
  have a: "createUser_result okBackend ''a@b.com'' ''password123'' = Inr ann"
    by (simp add: okBackend_def)
  have b: "email ann = Some ''a@b.com''" by (simp add: ann_def)
  have c: "updateProfile_error okBackend = None" by (simp add: okBackend_def)
  have d: "sendEmailVerification_error okBackend = None" by (simp add: okBackend_def)
  have e: "setDoc_error okBackend (''users'', uid ann) = None" by (simp add: okBackend_def)
  show ?thesis
    using a b signUp_scenario[OF a b c d e, of emptyWorld]
    by (simp add: emptyWorld_def ann_def okBackend_def)
qed

subsection \<open>C9: the session accessor\<close>

text \<open>
  C9. \<open>useAuth\<close> throws exactly when there is no provider around the caller; inside a
  provider it returns the provider's value, an object with the five fields \<open>user\<close>,
  \<open>loading\<close>, \<open>initializing\<close>, \<open>isAuthenticated\<close> and \<open>isEmailVerified\<close>.
\<close>

theorem useAuth_throws_iff:
  "(isl (useAuth provider) \<longleftrightarrow> provider = None)
   \<and> useAuth None = Inl (newError ''useAuth must be used within an AuthProvider'')
   \<and> useAuth (Some s) = Inr (contextValue s)"
  by (cases provider) (simp_all add: useAuth_def useContext_def)

theorem useAuth_throws_iff_witness:
  "isl (useAuth None)
   \<and> useAuth (Some initialState) =
       Inr \<lparr>user = None, loading = True, initializing = True,
            isAuthenticated = False, isEmailVerified = False\<rparr>"
  using useAuth_throws_iff[of None initialState]
  by (simp add: contextValue_def initialState_def)

subsection \<open>C10: inventory seeding\<close>

text \<open>
  C10. \<open>seedInventory\<close> always resolves, with one result per product of the table, in the
  table's order, all 13 of them, so a failing product does not stop the others. Its
  \<open>success\<close> flag is true exactly when the failed count is zero, and that count is the number
  of products whose read threw or whose write, the document being absent, threw. No document
  that exists is changed, and a write is only sent to a reference that held no document.
  After a run without failures a second run, whatever the store then answers, changes no
  document and sends no write.
\<close>

theorem seedInventory_idempotent:
  "\<exists>rep. fst (seedInventory be w) = Inr rep
      \<and> map r_id (results rep) = map p_id productsData
      \<and> length (results rep) = 13
      \<and> (success rep \<longleftrightarrow> failed (summary rep) = 0)
      \<and> failed (summary rep) = length (filter (productFails be (db w)) productsData)
      \<and> (\<forall>r d. db w r = Some d \<longrightarrow> db (snd (seedInventory be w)) r = Some d)
      \<and> (\<forall>r d. SetDoc r d \<in> set (callsSince w (snd (seedInventory be w))) \<longrightarrow> db w r = None)
      \<and> (success rep \<longrightarrow>
           (\<forall>be2. db (snd (seedInventory be2 (snd (seedInventory be w)))) = db (snd (seedInventory be w))
              \<and> (\<forall>r d. SetDoc r d \<notin> set (callsSince (snd (seedInventory be w))
                                          (snd (seedInventory be2 (snd (seedInventory be w))))))))"
proof -
  let ?w' = "snd (seedLoop be productsData [] w)"
  obtain rs where rs: "fst (seedLoop be productsData [] w) = Inr rs"
    and ids: "map r_id rs = map p_id productsData"
    using seedLoop_results[of be productsData "[]" w] by auto
  have count: "countStatus ''failed'' rs = length (filter (productFails be (db w)) productsData)"
    using seedLoop_failed_count[OF productsData_distinct, of be "[]" w] rs by auto
  from seedInventory_report[OF rs] obtain rep where
    report: "fst (seedInventory be w) = Inr rep \<and> results rep = rs
           \<and> success rep = (countStatus ''failed'' rs = 0)
           \<and> failed (summary rep) = countStatus ''failed'' rs" ..
  then have rep: "fst (seedInventory be w) = Inr rep" and res: "results rep = rs"
    and succ: "success rep = (countStatus ''failed'' rs = 0)"
    and fail: "failed (summary rep) = countStatus ''failed'' rs"
    by simp_all
  obtain xs where calls: "calls ?w' = calls w @ xs"
    and gated: "\<forall>r d. SetDoc r d \<in> set xs \<longrightarrow> db w r = None"
    and keeps: "\<forall>r d. db w r = Some d \<longrightarrow> db ?w' r = Some d"
    using seedLoop_world[of be productsData "[]" w] by blast
  have since: "callsSince w ?w' = xs"
    using calls by (simp add: callsSince_def)
  have len: "length (results rep) = 13"
    using res ids productsData_length by (metis length_map)
  have again: "\<forall>be2. db (snd (seedInventory be2 ?w')) = db ?w'
      \<and> (\<forall>r d. SetDoc r d \<notin> set (callsSince ?w' (snd (seedInventory be2 ?w'))))"
    if "success rep"
  proof
    fix be2
    from that have "filter (productFails be (db w)) productsData = []"
      using succ count by simp
    then have "\<forall>p \<in> set productsData. \<not> productFails be (db w) p"
      by (simp add: filter_empty_conv)
    then have "\<forall>p \<in> set productsData. db ?w' (''inventory'', p_id p) \<noteq> None"
      by (rule seedLoop_no_failure_all_present)
    then show "db (snd (seedInventory be2 ?w')) = db ?w'
      \<and> (\<forall>r d. SetDoc r d \<notin> set (callsSince ?w' (snd (seedInventory be2 ?w'))))"
      unfolding seedInventory_world by (rule seedLoop_all_present)
  qed
  have "fst (seedInventory be w) = Inr rep
      \<and> map r_id (results rep) = map p_id productsData
      \<and> length (results rep) = 13
      \<and> (success rep \<longleftrightarrow> failed (summary rep) = 0)
      \<and> failed (summary rep) = length (filter (productFails be (db w)) productsData)
      \<and> (\<forall>r d. db w r = Some d \<longrightarrow> db ?w' r = Some d)
      \<and> (\<forall>r d. SetDoc r d \<in> set (callsSince w ?w') \<longrightarrow> db w r = None)
      \<and> (success rep \<longrightarrow>
           (\<forall>be2. db (snd (seedInventory be2 ?w')) = db ?w'
              \<and> (\<forall>r d. SetDoc r d \<notin> set (callsSince ?w' (snd (seedInventory be2 ?w'))))))"
    using rep res ids len succ fail count keeps gated since again by simp
  then show ?thesis unfolding seedInventory_world by (rule exI)
qed

text \<open>
  A store that already holds an edited document under \<open>prd-001\<close> and answers every call:
  the run succeeds with 13 results, the edited document stays, and a second run, against a
  store that refuses every write, changes nothing.
\<close>

theorem seedInventory_idempotent_witness:
  "db partlySeeded (''inventory'', ''prd-001'') = Some (ProductDoc editedMango)
   \<and> db (snd (seedInventory okBackend partlySeeded)) (''inventory'', ''prd-001'') =
       Some (ProductDoc editedMango)
   \<and> (\<exists>rep. fst (seedInventory okBackend partlySeeded) = Inr rep \<and> success rep
         \<and> length (results rep) = 13)
   \<and> db (snd (seedInventory failingStore (snd (seedInventory okBackend partlySeeded)))) =
       db (snd (seedInventory okBackend partlySeeded))"
proof -
  let ?w' = "snd (seedInventory okBackend partlySeeded)"
  have old: "db partlySeeded (''inventory'', ''prd-001'') = Some (ProductDoc editedMango)"
    by (simp add: partlySeeded_def)
  have none: "length (filter (productFails okBackend (db partlySeeded)) productsData) = 0"
    by (simp add: filter_empty_conv productFails_def okBackend_def)
  from seedInventory_idempotent[of okBackend partlySeeded] obtain rep where
    run: "fst (seedInventory okBackend partlySeeded) = Inr rep
      \<and> map r_id (results rep) = map p_id productsData
      \<and> length (results rep) = 13
      \<and> (success rep \<longleftrightarrow> failed (summary rep) = 0)
      \<and> failed (summary rep) = length (filter (productFails okBackend (db partlySeeded)) productsData)
      \<and> (\<forall>r d. db partlySeeded r = Some d \<longrightarrow> db ?w' r = Some d)
      \<and> (\<forall>r d. SetDoc r d \<in> set (callsSince partlySeeded ?w') \<longrightarrow> db partlySeeded r = None)
      \<and> (success rep \<longrightarrow>
           (\<forall>be2. db (snd (seedInventory be2 ?w')) = db ?w'
              \<and> (\<forall>r d. SetDoc r d \<notin> set (callsSince ?w' (snd (seedInventory be2 ?w'))))))" ..
  from run have resolved: "fst (seedInventory okBackend partlySeeded) = Inr rep"
    and len: "length (results rep) = 13"
    and flag: "success rep \<longleftrightarrow> failed (summary rep) = 0"
    and cnt: "failed (summary rep) =
                length (filter (productFails okBackend (db partlySeeded)) productsData)"
    and keeps: "\<forall>r d. db partlySeeded r = Some d \<longrightarrow> db ?w' r = Some d"
    and again: "success rep \<longrightarrow> (\<forall>be2. db (snd (seedInventory be2 ?w')) = db ?w'
              \<and> (\<forall>r d. SetDoc r d \<notin> set (callsSince ?w' (snd (seedInventory be2 ?w')))))"
    by blast+
  have ok: "success rep"
    unfolding flag cnt by (rule none)
  have kept: "db ?w' (''inventory'', ''prd-001'') = Some (ProductDoc editedMango)"
    using keeps old by blast
  have stable: "db (snd (seedInventory failingStore ?w')) = db ?w'"
    using again ok by blast
  have "fst (seedInventory okBackend partlySeeded) = Inr rep \<and> success rep
         \<and> length (results rep) = 13"
    using resolved ok len by blast
  then have "\<exists>rep. fst (seedInventory okBackend partlySeeded) = Inr rep \<and> success rep
         \<and> length (results rep) = 13"
    by (rule exI)
  then show ?thesis
    using old kept stable by blast
qed

end
